theory Spec2Isabelle
  imports Complex_Main
begin

section \<open>Data model\<close>

text \<open>
  The rows the Prisma client returns, as the sources read and write them
  (\<^verbatim>\<open>src/__tests__/database.test.ts\<close> selects every column).  A TypeScript
  \<^verbatim>\<open>number\<close> is modelled as a real: the only operations on numbers in the
  modelled code are storing them and zod's comparison with zero.  The type of the
  \<^verbatim>\<open>quantity\<close> column is declared in \<^verbatim>\<open>prisma/schema.prisma\<close>, which is
  not among the sources: a stored item keeps the submitted number, and no theorem of a
  claim is about a stored quantity that is not an integer.  A nullable column
  (\<^verbatim>\<open>string | null\<close>) is an option.  The timestamp columns
  (\<^verbatim>\<open>createdAt\<close>, \<^verbatim>\<open>updatedAt\<close>) are left out: no modelled
  operation reads them.
\<close>

datatype ProductStatus = ACTIVE | OUT_OF_STOCK | DISCONTINUED

record Product =
  p_id :: string
  name :: string
  barcode :: string
  costPrice :: real
  sellPrice :: real
  status :: ProductStatus
  isOrdered :: bool
  tags :: "string list"
  vendors :: "string list"
  imagePath :: "string option"
  p_note :: "string option"

text \<open>\<^verbatim>\<open>CreateOrderItemRequest\<close> of \<^verbatim>\<open>types/index.ts\<close>; a stored
  \<^verbatim>\<open>OrderItem\<close> row has the same two columns and two more.\<close>

record CreateOrderItemRequest =
  productId :: string
  quantity :: real

record OrderItem = CreateOrderItemRequest +
  i_id :: string
  orderId :: string

record Order =
  o_id :: string
  o_note :: "string option"

record db =
  products :: "Product list"
  orders :: "Order list"
  orderItems :: "OrderItem list"

definition emptyDb :: db where
  "emptyDb = \<lparr>products = [], orders = [], orderItems = []\<rparr>"

section \<open>Errors\<close>

text \<open>What a failed statement of the persistence gateway raises (a Prisma client error).\<close>

datatype gateway_error = UniqueConstraint | ForeignKeyConstraint | RecordNotFound

text \<open>
  The failures of the services and of the route handlers.  The services throw
  \<^verbatim>\<open>new Error(message)\<close>; the handlers send a status code with an error text:
  \<^item> \<open>BarcodeAlreadyExists\<close>: \<^verbatim>\<open>'Barcode already exists'\<close>, and the handlers' 400;
  \<^item> \<open>InvalidVendorIds\<close>: \<^verbatim>\<open>'Invalid vendor IDs'\<close>;
  \<^item> \<open>ProductNotFound\<close>: \<^verbatim>\<open>'Product not found'\<close>, and the handlers' 404;
  \<^item> \<open>OrderNotFound\<close>: \<^verbatim>\<open>'Order not found'\<close>, and the handlers' 404;
  \<^item> \<open>SomeProductsNotFound\<close>: \<^verbatim>\<open>'Some products not found'\<close>, and the handlers' 400;
  \<^item> \<open>HasRelatedOrders\<close>: the 400 of \<^verbatim>\<open>DELETE /products/:id\<close>;
  \<^item> \<open>ZodError\<close>: a schema's \<^verbatim>\<open>parse\<close> threw, the handlers' 400;
  \<^item> \<open>PrismaError\<close>: any other exception; the handlers' 500.
\<close>

datatype error =
    BarcodeAlreadyExists
  | InvalidVendorIds
  | ProductNotFound
  | OrderNotFound
  | SomeProductsNotFound
  | HasRelatedOrders
  | ZodError
  | PrismaError gateway_error

text \<open>The status code a route handler sends with each failure.  No handler answers
  \<open>InvalidVendorIds\<close>; \<^verbatim>\<open>sendError\<close>, which the dashboard route uses for what a
  service throws, sends 400.\<close>

fun statusCode :: "error \<Rightarrow> nat" where
  "statusCode BarcodeAlreadyExists = 400"
| "statusCode InvalidVendorIds = 400"
| "statusCode ProductNotFound = 404"
| "statusCode OrderNotFound = 404"
| "statusCode SomeProductsNotFound = 400"
| "statusCode HasRelatedOrders = 400"
| "statusCode ZodError = 400"
| "statusCode (PrismaError g) = 500"

datatype error_kind = ValidationError | ConflictError | NotFoundError | PersistenceError

text \<open>The error kinds of the specification (its section 7), by what each failure reports.\<close>

fun kind :: "error \<Rightarrow> error_kind" where
  "kind BarcodeAlreadyExists = ConflictError"
| "kind HasRelatedOrders = ConflictError"
| "kind InvalidVendorIds = ValidationError"
| "kind SomeProductsNotFound = ValidationError"
| "kind ZodError = ValidationError"
| "kind ProductNotFound = NotFoundError"
| "kind OrderNotFound = NotFoundError"
| "kind (PrismaError g) = PersistenceError"

section \<open>Persistence gateway\<close>

text \<open>
  Modelled from the spec: the Prisma client and \<^verbatim>\<open>prisma/schema.prisma\<close> are not
  among the sources.  The gateway is a relational store with primary keys, a unique
  constraint on \<^verbatim>\<open>barcode\<close> (the sources call
  \<^verbatim>\<open>findUnique({ where: { barcode } })\<close>, which Prisma offers for unique columns
  only), foreign keys from an order item to its order and its product, and atomic
  statements: a failed statement changes nothing.  A generated id is one no row of the
  table has (here: a string longer than every id of the table).  The only failures of
  the gateway that are modelled are violated constraints and missing records; a lost
  connection is not.  The \<^verbatim>\<open>include\<close> of the product of each returned item is
  left out.
\<close>

definition freshId :: "string list \<Rightarrow> string" where
  "freshId used = replicate (Suc (foldr (\<lambda>u n. max (length u) n) used 0)) (CHR ''c'')"

text \<open>\<^verbatim>\<open>prisma.product.findUnique({ where: { id } })\<close>\<close>

definition product_findUnique :: "db \<Rightarrow> string \<Rightarrow> Product option" where
  "product_findUnique s i = find (\<lambda>p. p_id p = i) (products s)"

text \<open>\<^verbatim>\<open>prisma.product.findUnique({ where: { barcode } })\<close>\<close>

definition product_findUnique_barcode :: "db \<Rightarrow> string \<Rightarrow> Product option" where
  "product_findUnique_barcode s b = find (\<lambda>p. barcode p = b) (products s)"

text \<open>\<^verbatim>\<open>prisma.product.findMany({ where: { id: { in: ids } } })\<close>: the rows whose id is
  one of \<open>ids\<close>, each row once.\<close>

definition product_findMany_in :: "db \<Rightarrow> string list \<Rightarrow> Product list" where
  "product_findMany_in s ids = filter (\<lambda>p. p_id p \<in> set ids) (products s)"

text \<open>\<^verbatim>\<open>prisma.product.updateMany({ where: { id: { in: ids } }, data: { isOrdered: true } })\<close>\<close>

definition product_updateMany_isOrdered :: "db \<Rightarrow> string list \<Rightarrow> db" where
  "product_updateMany_isOrdered s ids =
     s\<lparr>products := map (\<lambda>p. if p_id p \<in> set ids then p\<lparr>isOrdered := True\<rparr> else p) (products s)\<rparr>"

text \<open>\<^verbatim>\<open>prisma.order.findUnique({ where: { id } })\<close>\<close>

definition order_findUnique :: "db \<Rightarrow> string \<Rightarrow> Order option" where
  "order_findUnique s i = find (\<lambda>ord. o_id ord = i) (orders s)"

text \<open>The items an order owns, as \<^verbatim>\<open>include: { items: ... }\<close> returns them.\<close>

definition itemsOf :: "db \<Rightarrow> string \<Rightarrow> OrderItem list" where
  "itemsOf s oid = filter (\<lambda>i. orderId i = oid) (orderItems s)"

text \<open>The two submitted columns of a stored item.\<close>

definition submitted :: "OrderItem \<Rightarrow> CreateOrderItemRequest" where
  "submitted i = \<lparr>productId = productId i, quantity = quantity i\<rparr>"

text \<open>Inserting the item rows of one order, in submission order, each under a new id.\<close>

fun insertItems :: "string \<Rightarrow> CreateOrderItemRequest list \<Rightarrow> OrderItem list \<Rightarrow> OrderItem list" where
  "insertItems oid [] tbl = tbl"
| "insertItems oid (r # rs) tbl =
     insertItems oid rs
       (tbl @ [\<lparr>productId = productId r, quantity = quantity r,
                i_id = freshId (map i_id tbl), orderId = oid\<rparr>])"

text \<open>The foreign key of an item to its product: every referenced product is a row.\<close>

definition productsExist :: "db \<Rightarrow> CreateOrderItemRequest list \<Rightarrow> bool" where
  "productsExist s its = list_all (\<lambda>r. productId r \<in> set (map p_id (products s))) its"

text \<open>\<^verbatim>\<open>prisma.order.create({ data: { note, items: { create: [...] } } })\<close>: the order
  and its items in one statement.\<close>

definition order_create ::
  "db \<Rightarrow> string option \<Rightarrow> CreateOrderItemRequest list \<Rightarrow> gateway_error + ((Order \<times> OrderItem list) \<times> db)" where
  "order_create s nt its =
     (if productsExist s its then
        (let oid = freshId (map o_id (orders s));
             row = \<lparr>o_id = oid, o_note = nt\<rparr>;
             s' = s\<lparr>orders := orders s @ [row],
                    orderItems := insertItems oid its (orderItems s)\<rparr>
         in Inr ((row, itemsOf s' oid), s'))
      else Inl ForeignKeyConstraint)"

text \<open>\<^verbatim>\<open>tx.orderItem.deleteMany({ where: { orderId: id } })\<close>\<close>

definition orderItem_deleteMany :: "db \<Rightarrow> string \<Rightarrow> db" where
  "orderItem_deleteMany s oid = s\<lparr>orderItems := filter (\<lambda>i. orderId i \<noteq> oid) (orderItems s)\<rparr>"

text \<open>\<^verbatim>\<open>tx.orderItem.createMany({ data: [...] })\<close> for the items of one order.\<close>

definition orderItem_createMany ::
  "db \<Rightarrow> string \<Rightarrow> CreateOrderItemRequest list \<Rightarrow> gateway_error + db" where
  "orderItem_createMany s oid its =
     (if productsExist s its \<and> order_findUnique s oid \<noteq> None
      then Inr (s\<lparr>orderItems := insertItems oid its (orderItems s)\<rparr>)
      else Inl ForeignKeyConstraint)"

text \<open>\<^verbatim>\<open>prisma.order.update({ where: { id }, data: { note?, items?: { create } } })\<close>:
  \<open>nt\<close> is \<open>None\<close> when the data object has no \<^verbatim>\<open>note\<close> key, \<open>its\<close> is the
  nested create (empty when there is none).\<close>

definition order_update ::
  "db \<Rightarrow> string \<Rightarrow> string option option \<Rightarrow> CreateOrderItemRequest list \<Rightarrow> gateway_error + ((Order \<times> OrderItem list) \<times> db)" where
  "order_update s oid nt its =
     (case order_findUnique s oid of
        None \<Rightarrow> Inl RecordNotFound
      | Some old \<Rightarrow>
          (if productsExist s its then
             (let row = (case nt of None \<Rightarrow> old | Some n \<Rightarrow> old\<lparr>o_note := n\<rparr>);
                  s' = s\<lparr>orders := map (\<lambda>ord. if o_id ord = oid then row else ord) (orders s),
                         orderItems := insertItems oid its (orderItems s)\<rparr>
              in Inr ((row, itemsOf s' oid), s'))
           else Inl ForeignKeyConstraint))"

text \<open>\<^verbatim>\<open>prisma.$transaction(async (tx) => ...)\<close>: when the callback throws, every
  statement it issued is rolled back.\<close>

definition transaction :: "(db \<Rightarrow> (error + 'a) \<times> db) \<Rightarrow> db \<Rightarrow> (error + 'a) \<times> db" where
  "transaction f s = (case f s of (Inl e, s') \<Rightarrow> (Inl e, s) | (Inr r, s') \<Rightarrow> (Inr r, s'))"

section \<open>Order service (\<^verbatim>\<open>OrderService\<close>)\<close>

text \<open>\<^verbatim>\<open>CreateOrderRequest\<close> and \<^verbatim>\<open>UpdateOrderRequest\<close> of
  \<^verbatim>\<open>types/index.ts\<close>; an optional property is an option.\<close>

record CreateOrderRequest =
  co_items :: "CreateOrderItemRequest list"
  co_note :: "string option"

record UpdateOrderRequest =
  uo_items :: "CreateOrderItemRequest list option"
  uo_note :: "string option"

text \<open>\<^verbatim>\<open>OrderService.createOrder\<close>.  \<^verbatim>\<open>data.note ?? null\<close> keeps a
  given note and stores null for a missing one, which is the option itself.\<close>

definition createOrder :: "db \<Rightarrow> CreateOrderRequest \<Rightarrow> (error + (Order \<times> OrderItem list)) \<times> db" where
  "createOrder s data =
     (let productIds = map productId (co_items data);
          found = product_findMany_in s productIds
      in if length found \<noteq> length productIds then (Inl SomeProductsNotFound, s)
         else (case order_create s (co_note data) (co_items data) of
                 Inl g \<Rightarrow> (Inl (PrismaError g), s)
               | Inr (r, s') \<Rightarrow> (Inr r, s')))"

text \<open>\<^verbatim>\<open>OrderService.updateOrder\<close>.  With items, the callback of the transaction
  deletes the order's items and then updates the order with a nested create of the new
  ones; both branches write \<^verbatim>\<open>note: data.note ?? null\<close>.\<close>

definition updateOrder :: "db \<Rightarrow> string \<Rightarrow> UpdateOrderRequest \<Rightarrow> (error + (Order \<times> OrderItem list)) \<times> db" where
  "updateOrder s i data =
     (case order_findUnique s i of
        None \<Rightarrow> (Inl OrderNotFound, s)
      | Some existingOrder \<Rightarrow>
          (case uo_items data of
             Some its \<Rightarrow>
               (let productIds = map productId its;
                    found = product_findMany_in s productIds
                in if length found \<noteq> length productIds then (Inl SomeProductsNotFound, s)
                   else transaction (\<lambda>tx.
                          (let tx1 = orderItem_deleteMany tx i
                           in case order_update tx1 i (Some (uo_note data)) its of
                                Inl g \<Rightarrow> (Inl (PrismaError g), tx1)
                              | Inr (r, tx2) \<Rightarrow> (Inr r, tx2))) s)
           | None \<Rightarrow>
               (case order_update s i (Some (uo_note data)) [] of
                  Inl g \<Rightarrow> (Inl (PrismaError g), s)
                | Inr (r, s') \<Rightarrow> (Inr r, s'))))"

section \<open>Order routes (\<^verbatim>\<open>routes/orders.ts\<close>)\<close>

text \<open>
  A request body, after JSON parsing: a property that is missing is \<open>None\<close>.  The
  schemas are zod's: \<^verbatim>\<open>orderItemSchema\<close> wants a non-empty
  \<^verbatim>\<open>productId\<close> and a \<^verbatim>\<open>quantity\<close> that is
  \<^verbatim>\<open>z.number().positive()\<close>; \<^verbatim>\<open>createOrderSchema\<close> wants at least one
  item; \<^verbatim>\<open>createOrderSchema.partial()\<close> makes both properties optional and
  checks the ones that are there.  \<open>None\<close> is a thrown \<^verbatim>\<open>ZodError\<close>.
\<close>

record OrderBody =
  ob_note :: "string option"
  ob_items :: "CreateOrderItemRequest list option"

definition orderItemSchema :: "CreateOrderItemRequest \<Rightarrow> bool" where
  "orderItemSchema r \<longleftrightarrow> 1 \<le> length (productId r) \<and> 0 < quantity r"

definition itemsSchema :: "CreateOrderItemRequest list \<Rightarrow> bool" where
  "itemsSchema its \<longleftrightarrow> list_all orderItemSchema its \<and> 1 \<le> length its"

definition createOrderSchema :: "OrderBody \<Rightarrow> CreateOrderRequest option" where
  "createOrderSchema b =
     (case ob_items b of
        None \<Rightarrow> None
      | Some its \<Rightarrow> if itemsSchema its then Some \<lparr>co_items = its, co_note = ob_note b\<rparr> else None)"

definition createOrderSchema_partial :: "OrderBody \<Rightarrow> UpdateOrderRequest option" where
  "createOrderSchema_partial b =
     (case ob_items b of
        None \<Rightarrow> Some \<lparr>uo_items = None, uo_note = ob_note b\<rparr>
      | Some its \<Rightarrow> if itemsSchema its then Some \<lparr>uo_items = Some its, uo_note = ob_note b\<rparr> else None)"

text \<open>\<^verbatim>\<open>x || null\<close> on an optional string: a missing and an empty string give null.\<close>

definition orNull :: "string option \<Rightarrow> string option" where
  "orNull x = (case x of None \<Rightarrow> None | Some v \<Rightarrow> if v = [] then None else Some v)"

text \<open>The handler of \<^verbatim>\<open>POST /orders\<close>.\<close>

definition post_orders :: "db \<Rightarrow> OrderBody \<Rightarrow> (error + (Order \<times> OrderItem list)) \<times> db" where
  "post_orders s body =
     (case createOrderSchema body of
        None \<Rightarrow> (Inl ZodError, s)
      | Some orderData \<Rightarrow>
          (let productIds = map productId (co_items orderData);
               found = product_findMany_in s productIds
           in if length found \<noteq> length productIds then (Inl SomeProductsNotFound, s)
              else (case order_create s (orNull (co_note orderData)) (co_items orderData) of
                      Inl g \<Rightarrow> (Inl (PrismaError g), s)
                    | Inr (r, s') \<Rightarrow> (Inr r, product_updateMany_isOrdered s' productIds))))"

text \<open>The handler of \<^verbatim>\<open>PUT /orders/:id\<close>.  The update payload has a
  \<^verbatim>\<open>note\<close> key only when the body has one.\<close>

definition put_orders :: "db \<Rightarrow> string \<Rightarrow> OrderBody \<Rightarrow> (error + (Order \<times> OrderItem list)) \<times> db" where
  "put_orders s i body =
     (case createOrderSchema_partial body of
        None \<Rightarrow> (Inl ZodError, s)
      | Some updateData \<Rightarrow>
          (case order_findUnique s i of
             None \<Rightarrow> (Inl OrderNotFound, s)
           | Some existingOrder \<Rightarrow>
               transaction (\<lambda>tx.
                 (case (case uo_items updateData of
                          None \<Rightarrow> Inr tx
                        | Some its \<Rightarrow> orderItem_createMany (orderItem_deleteMany tx i) i its) of
                    Inl g \<Rightarrow> (Inl (PrismaError g), orderItem_deleteMany tx i)
                  | Inr tx1 \<Rightarrow>
                      (let updatePayload =
                             (case uo_note updateData of
                                None \<Rightarrow> None
                              | Some n \<Rightarrow> Some (orNull (Some n)))
                       in case order_update tx1 i updatePayload [] of
                            Inl g \<Rightarrow> (Inl (PrismaError g), tx1)
                          | Inr (r, tx2) \<Rightarrow> (Inr r, tx2)))) s))"

section \<open>Persistence gateway: product writes\<close>

text \<open>
  Modelled from the spec: \<^verbatim>\<open>prisma/schema.prisma\<close> is not among the sources.
  A new product gets \<^verbatim>\<open>isOrdered = false\<close>, and the status
  \<^verbatim>\<open>ACTIVE\<close> when the data object names none (the defaults of the
  specification's data model).  A write whose barcode another row has violates the unique
  constraint.
\<close>

definition product_create ::
  "db \<Rightarrow> string \<Rightarrow> string \<Rightarrow> real \<Rightarrow> real \<Rightarrow> string list \<Rightarrow> string option \<Rightarrow> string list \<Rightarrow>
   string option \<Rightarrow> ProductStatus option \<Rightarrow> gateway_error + (Product \<times> db)" where
  "product_create s nm bc cp sp vs ip tg nt st =
     (if list_ex (\<lambda>p. barcode p = bc) (products s) then Inl UniqueConstraint
      else
        (let row = \<lparr>p_id = freshId (map p_id (products s)), name = nm, barcode = bc,
                    costPrice = cp, sellPrice = sp,
                    status = (case st of None \<Rightarrow> ACTIVE | Some v \<Rightarrow> v),
                    isOrdered = False, tags = tg, vendors = vs, imagePath = ip, p_note = nt\<rparr>
         in Inr (row, s\<lparr>products := products s @ [row]\<rparr>)))"

text \<open>The data object of \<^verbatim>\<open>prisma.product.update\<close>: a key that is not set is
  \<open>None\<close>; the two nullable columns can be set to null (\<open>Some None\<close>).\<close>

record ProductUpdateInput =
  d_name :: "string option"
  d_barcode :: "string option"
  d_costPrice :: "real option"
  d_sellPrice :: "real option"
  d_vendors :: "string list option"
  d_imagePath :: "string option option"
  d_status :: "ProductStatus option"
  d_isOrdered :: "bool option"
  d_tags :: "string list option"
  d_note :: "string option option"

definition applyUpdate :: "ProductUpdateInput \<Rightarrow> Product \<Rightarrow> Product" where
  "applyUpdate d p =
     \<lparr>p_id = p_id p,
      name = (case d_name d of None \<Rightarrow> name p | Some v \<Rightarrow> v),
      barcode = (case d_barcode d of None \<Rightarrow> barcode p | Some v \<Rightarrow> v),
      costPrice = (case d_costPrice d of None \<Rightarrow> costPrice p | Some v \<Rightarrow> v),
      sellPrice = (case d_sellPrice d of None \<Rightarrow> sellPrice p | Some v \<Rightarrow> v),
      status = (case d_status d of None \<Rightarrow> status p | Some v \<Rightarrow> v),
      isOrdered = (case d_isOrdered d of None \<Rightarrow> isOrdered p | Some v \<Rightarrow> v),
      tags = (case d_tags d of None \<Rightarrow> tags p | Some v \<Rightarrow> v),
      vendors = (case d_vendors d of None \<Rightarrow> vendors p | Some v \<Rightarrow> v),
      imagePath = (case d_imagePath d of None \<Rightarrow> imagePath p | Some v \<Rightarrow> v),
      p_note = (case d_note d of None \<Rightarrow> p_note p | Some v \<Rightarrow> v)\<rparr>"

text \<open>\<^verbatim>\<open>prisma.product.update({ where: { id }, data })\<close>\<close>

definition product_update :: "db \<Rightarrow> string \<Rightarrow> ProductUpdateInput \<Rightarrow> gateway_error + (Product \<times> db)" where
  "product_update s i d =
     (case product_findUnique s i of
        None \<Rightarrow> Inl RecordNotFound
      | Some old \<Rightarrow>
          (if (case d_barcode d of
                 None \<Rightarrow> False
               | Some b \<Rightarrow> list_ex (\<lambda>p. p_id p \<noteq> i \<and> barcode p = b) (products s))
           then Inl UniqueConstraint
           else Inr (applyUpdate d old,
                     s\<lparr>products := map (\<lambda>p. if p_id p = i then applyUpdate d p else p) (products s)\<rparr>)))"

text \<open>What the store does with the items that reference a deleted product is the
  schema's choice (\<^verbatim>\<open>onDelete\<close>), taken as a parameter.\<close>

datatype ReferentialAction = Restrict | Cascade

text \<open>\<^verbatim>\<open>prisma.product.delete({ where: { id } })\<close>\<close>

definition product_delete :: "ReferentialAction \<Rightarrow> db \<Rightarrow> string \<Rightarrow> gateway_error + db" where
  "product_delete act s i =
     (case product_findUnique s i of
        None \<Rightarrow> Inl RecordNotFound
      | Some old \<Rightarrow>
          (if act = Restrict \<and> list_ex (\<lambda>it. productId it = i) (orderItems s)
           then Inl ForeignKeyConstraint
           else Inr (s\<lparr>products := filter (\<lambda>p. p_id p \<noteq> i) (products s),
                       orderItems := filter (\<lambda>it. productId it \<noteq> i) (orderItems s)\<rparr>)))"

section \<open>Vendor service (\<^verbatim>\<open>VendorService\<close>)\<close>

text \<open>The ids of the static \<^verbatim>\<open>VENDORS\<close> table.\<close>

definition VENDORS :: "string list" where
  "VENDORS = [''01'', ''02'', ''03'', ''05'', ''08'', ''12'', ''15'', ''17'', ''20'', ''23'']"

definition validateVendorIds :: "string list \<Rightarrow> bool" where
  "validateVendorIds vendorIds =
     (if length vendorIds = 0 then False else list_all (\<lambda>i. i \<in> set VENDORS) vendorIds)"

section \<open>Product service (\<^verbatim>\<open>ProductService\<close>)\<close>

text \<open>\<^verbatim>\<open>CreateProductRequest\<close> and \<^verbatim>\<open>UpdateProductRequest\<close> of
  \<^verbatim>\<open>types/index.ts\<close>.  The service tests \<^verbatim>\<open>data.vendors\<close> before it
  reads its length, so the list may be missing.\<close>

record CreateProductRequest =
  c_name :: string
  c_barcode :: string
  c_costPrice :: real
  c_sellPrice :: real
  c_vendors :: "string list option"
  c_imagePath :: "string option"
  c_tags :: "string list option"
  c_note :: "string option"

record UpdateProductRequest =
  u_name :: "string option"
  u_barcode :: "string option"
  u_costPrice :: "real option"
  u_sellPrice :: "real option"
  u_vendors :: "string list option"
  u_imagePath :: "string option"
  u_status :: "ProductStatus option"
  u_isOrdered :: "bool option"
  u_tags :: "string list option"
  u_note :: "string option"

text \<open>\<^verbatim>\<open>data.vendors && data.vendors.length > 0\<close> followed by the failed
  \<^verbatim>\<open>validateVendorIds\<close>.\<close>

definition vendorsRejected :: "string list option \<Rightarrow> bool" where
  "vendorsRejected vs =
     (case vs of None \<Rightarrow> False | Some v \<Rightarrow> 0 < length v \<and> \<not> validateVendorIds v)"

text \<open>\<^verbatim>\<open>xs || []\<close> on an optional array.\<close>

definition orEmpty :: "string list option \<Rightarrow> string list" where
  "orEmpty xs = (case xs of None \<Rightarrow> [] | Some v \<Rightarrow> v)"

text \<open>\<^verbatim>\<open>ProductService.createProduct\<close>\<close>

definition createProduct :: "db \<Rightarrow> CreateProductRequest \<Rightarrow> (error + Product) \<times> db" where
  "createProduct s data =
     (case product_findUnique_barcode s (c_barcode data) of
        Some existingProduct \<Rightarrow> (Inl BarcodeAlreadyExists, s)
      | None \<Rightarrow>
          (if vendorsRejected (c_vendors data) then (Inl InvalidVendorIds, s)
           else (case product_create s (c_name data) (c_barcode data) (c_costPrice data)
                        (c_sellPrice data) (orEmpty (c_vendors data)) (orNull (c_imagePath data))
                        (orEmpty (c_tags data)) (c_note data) None of
                   Inl g \<Rightarrow> (Inl (PrismaError g), s)
                 | Inr (row, s') \<Rightarrow> (Inr row, s'))))"

text \<open>\<^verbatim>\<open>data.barcode && data.barcode !== existingProduct.barcode\<close> followed by a
  hit of the lookup by barcode; an empty string is falsy.\<close>

definition barcodeTaken :: "db \<Rightarrow> Product \<Rightarrow> string option \<Rightarrow> bool" where
  "barcodeTaken s existingProduct b =
     (case b of
        None \<Rightarrow> False
      | Some v \<Rightarrow> v \<noteq> [] \<and> v \<noteq> barcode existingProduct \<and> product_findUnique_barcode s v \<noteq> None)"

text \<open>\<^verbatim>\<open>ProductService.updateProduct\<close>: \<^verbatim>\<open>updateData\<close> gets a key for
  every property of the request that is not \<^verbatim>\<open>undefined\<close>.\<close>

definition updateProduct :: "db \<Rightarrow> string \<Rightarrow> UpdateProductRequest \<Rightarrow> (error + Product) \<times> db" where
  "updateProduct s i data =
     (case product_findUnique s i of
        None \<Rightarrow> (Inl ProductNotFound, s)
      | Some existingProduct \<Rightarrow>
          (if barcodeTaken s existingProduct (u_barcode data) then (Inl BarcodeAlreadyExists, s)
           else if vendorsRejected (u_vendors data) then (Inl InvalidVendorIds, s)
           else
             (let updateData =
                    \<lparr>d_name = u_name data, d_barcode = u_barcode data,
                     d_costPrice = u_costPrice data, d_sellPrice = u_sellPrice data,
                     d_vendors = u_vendors data, d_imagePath = map_option Some (u_imagePath data),
                     d_status = u_status data, d_isOrdered = u_isOrdered data,
                     d_tags = u_tags data, d_note = map_option Some (u_note data)\<rparr>
              in case product_update s i updateData of
                   Inl g \<Rightarrow> (Inl (PrismaError g), s)
                 | Inr (row, s') \<Rightarrow> (Inr row, s'))))"

text \<open>\<^verbatim>\<open>ProductService.deleteProduct\<close>\<close>

definition deleteProduct :: "ReferentialAction \<Rightarrow> db \<Rightarrow> string \<Rightarrow> (error + unit) \<times> db" where
  "deleteProduct act s i =
     (case product_findUnique s i of
        None \<Rightarrow> (Inl ProductNotFound, s)
      | Some existingProduct \<Rightarrow>
          (case product_delete act s i of
             Inl g \<Rightarrow> (Inl (PrismaError g), s)
           | Inr s' \<Rightarrow> (Inr (), s')))"

section \<open>Product routes (\<^verbatim>\<open>routes/products.ts\<close>)\<close>

text \<open>
  A request body after JSON parsing; a missing property is \<open>None\<close>.
  \<^verbatim>\<open>createProductSchema\<close> wants a non-empty name and barcode and positive
  prices, and fills in \<^verbatim>\<open>vendorIds = []\<close>, \<^verbatim>\<open>tags = []\<close> and
  \<^verbatim>\<open>status = 'ACTIVE'\<close>; properties it does not name (\<^verbatim>\<open>isOrdered\<close>)
  are dropped.  \<^verbatim>\<open>createProductSchema.partial()\<close> checks the properties that
  are there and leaves a missing one \<^verbatim>\<open>undefined\<close> (zod 3: the optional
  wrapper returns before the default applies).  \<open>None\<close> is a thrown
  \<^verbatim>\<open>ZodError\<close>.
\<close>

record ProductBody =
  pb_name :: "string option"
  pb_barcode :: "string option"
  pb_costPrice :: "real option"
  pb_sellPrice :: "real option"
  pb_vendorIds :: "string list option"
  pb_imagePath :: "string option"
  pb_status :: "ProductStatus option"
  pb_tags :: "string list option"
  pb_note :: "string option"

record ProductData =
  pd_name :: string
  pd_barcode :: string
  pd_costPrice :: real
  pd_sellPrice :: real
  pd_vendorIds :: "string list"
  pd_imagePath :: "string option"
  pd_status :: ProductStatus
  pd_tags :: "string list"
  pd_note :: "string option"

definition createProductSchema :: "ProductBody \<Rightarrow> ProductData option" where
  "createProductSchema b =
     (case (pb_name b, pb_barcode b, pb_costPrice b, pb_sellPrice b) of
        (Some nm, Some bc, Some cp, Some sp) \<Rightarrow>
          (if 1 \<le> length nm \<and> 1 \<le> length bc \<and> 0 < cp \<and> 0 < sp
           then Some \<lparr>pd_name = nm, pd_barcode = bc, pd_costPrice = cp, pd_sellPrice = sp,
                      pd_vendorIds = orEmpty (pb_vendorIds b), pd_imagePath = pb_imagePath b,
                      pd_status = (case pb_status b of None \<Rightarrow> ACTIVE | Some v \<Rightarrow> v),
                      pd_tags = orEmpty (pb_tags b), pd_note = pb_note b\<rparr>
           else None)
      | _ \<Rightarrow> None)"

definition createProductSchema_partial :: "ProductBody \<Rightarrow> ProductBody option" where
  "createProductSchema_partial b =
     (if (case pb_name b of None \<Rightarrow> True | Some v \<Rightarrow> 1 \<le> length v)
       \<and> (case pb_barcode b of None \<Rightarrow> True | Some v \<Rightarrow> 1 \<le> length v)
       \<and> (case pb_costPrice b of None \<Rightarrow> True | Some v \<Rightarrow> 0 < v)
       \<and> (case pb_sellPrice b of None \<Rightarrow> True | Some v \<Rightarrow> 0 < v)
      then Some b else None)"

text \<open>The handler of \<^verbatim>\<open>POST /products\<close>.\<close>

definition post_products :: "db \<Rightarrow> ProductBody \<Rightarrow> (error + Product) \<times> db" where
  "post_products s body =
     (case createProductSchema body of
        None \<Rightarrow> (Inl ZodError, s)
      | Some productData \<Rightarrow>
          (case product_findUnique_barcode s (pd_barcode productData) of
             Some existingProduct \<Rightarrow> (Inl BarcodeAlreadyExists, s)
           | None \<Rightarrow>
               (case product_create s (pd_name productData) (pd_barcode productData)
                       (pd_costPrice productData) (pd_sellPrice productData)
                       (pd_vendorIds productData) (orNull (pd_imagePath productData))
                       (pd_tags productData) (orNull (pd_note productData))
                       (Some (pd_status productData)) of
                  Inl g \<Rightarrow> (Inl (PrismaError g), s)
                | Inr (row, s') \<Rightarrow> (Inr row, s'))))"

text \<open>The handler of \<^verbatim>\<open>PUT /products/:id\<close>: \<^verbatim>\<open>updatePayload\<close> gets a
  key for every property of the parsed body that is not \<^verbatim>\<open>undefined\<close>.\<close>

definition put_products :: "db \<Rightarrow> string \<Rightarrow> ProductBody \<Rightarrow> (error + Product) \<times> db" where
  "put_products s i body =
     (case createProductSchema_partial body of
        None \<Rightarrow> (Inl ZodError, s)
      | Some updateData \<Rightarrow>
          (case product_findUnique s i of
             None \<Rightarrow> (Inl ProductNotFound, s)
           | Some existingProduct \<Rightarrow>
               (if barcodeTaken s existingProduct (pb_barcode updateData)
                then (Inl BarcodeAlreadyExists, s)
                else
                  (let updatePayload =
                         \<lparr>d_name = pb_name updateData, d_barcode = pb_barcode updateData,
                          d_costPrice = pb_costPrice updateData,
                          d_sellPrice = pb_sellPrice updateData,
                          d_vendors = pb_vendorIds updateData,
                          d_imagePath = map_option (\<lambda>v. orNull (Some v)) (pb_imagePath updateData),
                          d_status = pb_status updateData, d_isOrdered = None,
                          d_tags = pb_tags updateData,
                          d_note = map_option (\<lambda>v. orNull (Some v)) (pb_note updateData)\<rparr>
                   in case product_update s i updatePayload of
                        Inl g \<Rightarrow> (Inl (PrismaError g), s)
                      | Inr (row, s') \<Rightarrow> (Inr row, s')))))"

text \<open>The handler of \<^verbatim>\<open>DELETE /products/:id\<close>: the product is read with its
  order items, and deleted only when it has none.\<close>

definition delete_products :: "ReferentialAction \<Rightarrow> db \<Rightarrow> string \<Rightarrow> (error + unit) \<times> db" where
  "delete_products act s i =
     (case product_findUnique s i of
        None \<Rightarrow> (Inl ProductNotFound, s)
      | Some existingProduct \<Rightarrow>
          (if 0 < length (filter (\<lambda>it. productId it = i) (orderItems s))
           then (Inl HasRelatedOrders, s)
           else (case product_delete act s i of
                   Inl g \<Rightarrow> (Inl (PrismaError g), s)
                 | Inr s' \<Rightarrow> (Inr (), s'))))"

section \<open>Well-formed stores\<close>

text \<open>The primary key of the product table: no two rows share an id.\<close>

definition wf :: "db \<Rightarrow> bool" where
  "wf s \<longleftrightarrow> distinct (map p_id (products s))"

text \<open>Barcode uniqueness: no two product rows share a barcode.\<close>

definition barcodeUnique :: "db \<Rightarrow> bool" where
  "barcodeUnique s \<longleftrightarrow> distinct (map barcode (products s))"

text \<open>The two constraints of the product table together.\<close>

definition consistent :: "db \<Rightarrow> bool" where
  "consistent s \<longleftrightarrow> wf s \<and> barcodeUnique s"

section \<open>Sequences of product calls\<close>

text \<open>The calls that write a product's barcode, through the service and through the
  routes, and the store after a sequence of them (whatever each call answers).\<close>

datatype product_call =
    CreateProduct CreateProductRequest
  | UpdateProduct string UpdateProductRequest
  | PostProducts ProductBody
  | PutProducts string ProductBody

fun after :: "db \<Rightarrow> product_call \<Rightarrow> db" where
  "after s (CreateProduct d) = snd (createProduct s d)"
| "after s (UpdateProduct i d) = snd (updateProduct s i d)"
| "after s (PostProducts b) = snd (post_products s b)"
| "after s (PutProducts i b) = snd (put_products s i b)"

fun run :: "db \<Rightarrow> product_call list \<Rightarrow> db" where
  "run s [] = s"
| "run s (c # cs) = run (after s c) cs"

section \<open>A concrete store\<close>

text \<open>The scenario of the specification's section 8: the product Coke, and one order of
  50 of it.\<close>

definition coke :: Product where
  "coke = \<lparr>p_id = ''p1'', name = ''Coke'', barcode = ''COKE-001'', costPrice = 20,
            sellPrice = 25, status = ACTIVE, isOrdered = False, tags = [], vendors = [],
            imagePath = None, p_note = None\<rparr>"

definition shop :: db where
  "shop = \<lparr>products = [coke],
            orders = [\<lparr>o_id = ''o1'', o_note = Some ''weekend''\<rparr>],
            orderItems = [\<lparr>productId = ''p1'', quantity = 50, i_id = ''i1'', orderId = ''o1''\<rparr>]\<rparr>"

definition item :: "string \<Rightarrow> real \<Rightarrow> CreateOrderItemRequest" where
  "item p q = \<lparr>productId = p, quantity = q\<rparr>"

text \<open>The creation request of the same scenario, and an update of the selling price
  alone, as a service request and as a request body.\<close>

definition cokeRequest :: CreateProductRequest where
  "cokeRequest = \<lparr>c_name = ''Coke'', c_barcode = ''COKE-001'', c_costPrice = 20,
                   c_sellPrice = 25, c_vendors = None, c_imagePath = None, c_tags = None,
                   c_note = None\<rparr>"

definition priceOnly :: UpdateProductRequest where
  "priceOnly = \<lparr>u_name = None, u_barcode = None, u_costPrice = None, u_sellPrice = Some 30,
                 u_vendors = None, u_imagePath = None, u_status = None, u_isOrdered = None,
                 u_tags = None, u_note = None\<rparr>"

definition priceOnlyBody :: ProductBody where
  "priceOnlyBody = \<lparr>pb_name = None, pb_barcode = None, pb_costPrice = None,
                     pb_sellPrice = Some 30, pb_vendorIds = None, pb_imagePath = None,
                     pb_status = None, pb_tags = None, pb_note = None\<rparr>"

text \<open>A request body that names a vendor id the registry does not have.\<close>

definition teaBody :: ProductBody where
  "teaBody = \<lparr>pb_name = Some ''Tea'', pb_barcode = Some ''TEA-001'', pb_costPrice = Some 10,
               pb_sellPrice = Some 20, pb_vendorIds = Some [''99''], pb_imagePath = None,
               pb_status = None, pb_tags = None, pb_note = None\<rparr>"

section \<open>The batched existence lookup\<close>

lemma find_None_iff_id: "find (\<lambda>p. p_id p = i) ps = None \<longleftrightarrow> i \<notin> set (map p_id ps)"
  by (auto simp: find_None_iff)

lemma findMany_length:
  assumes "distinct (map p_id ps)"
  shows "length (filter (\<lambda>p. p_id p \<in> set ids) ps) = card (set ids \<inter> set (map p_id ps))"
proof -
  have "length (filter (\<lambda>p. p_id p \<in> set ids) ps)
        = length (filter (\<lambda>i. i \<in> set ids) (map p_id ps))"
    by (simp add: filter_map o_def)
  also have "\<dots> = card (set (filter (\<lambda>i. i \<in> set ids) (map p_id ps)))"
    using assms distinct_card[of "filter (\<lambda>i. i \<in> set ids) (map p_id ps)"]
    by (simp only: distinct_filter)
  also have "set (filter (\<lambda>i. i \<in> set ids) (map p_id ps)) = set ids \<inter> set (map p_id ps)"
    by auto
  finally show ?thesis .
qed

lemma findMany_missing:
  assumes "wf s" and "i \<in> set ids" and "product_findUnique s i = None"
  shows "length (product_findMany_in s ids) < length ids"
proof -
  have "i \<notin> set (map p_id (products s))"
    using assms(3) by (simp add: product_findUnique_def find_None_iff_id)
  with assms(2) have "set ids \<inter> set (map p_id (products s)) \<subset> set ids" by auto
  then have "card (set ids \<inter> set (map p_id (products s))) < card (set ids)"
    by (simp add: psubset_card_mono)
  also have "\<dots> \<le> length ids" by (rule card_length)
  finally show ?thesis
    using assms(1) by (simp add: product_findMany_in_def wf_def findMany_length)
qed

lemma findMany_duplicate:
  assumes "wf s" and "\<not> distinct ids"
  shows "length (product_findMany_in s ids) < length ids"
proof -
  have "card (set ids \<inter> set (map p_id (products s))) \<le> card (set ids)"
    by (simp add: card_mono)
  moreover have "card (set ids) < length ids"
    using assms(2) card_distinct[of ids] card_length[of ids]
    by (cases "card (set ids) = length ids") auto
  ultimately show ?thesis
    using assms(1) by (simp add: product_findMany_in_def wf_def findMany_length)
qed

lemma findMany_all:
  assumes "wf s" and "distinct ids" and "set ids \<subseteq> set (map p_id (products s))"
  shows "length (product_findMany_in s ids) = length ids"
proof -
  have "set ids \<inter> set (map p_id (products s)) = set ids"
    using assms(3) by auto
  then show ?thesis
    using assms(1,2) by (simp add: product_findMany_in_def wf_def findMany_length distinct_card)
qed

lemma wf_shop: "wf shop"
  by (simp add: wf_def shop_def)

section \<open>Claims about orders\<close>

text \<open>
  Claim C1.  When some submitted item names a product that is not stored, creating the
  order fails with \<open>SomeProductsNotFound\<close> (a validation error): the one batched lookup
  returns fewer rows than there are submitted ids.  The store is returned as it was, so
  no order and no order item is persisted.  The service and the handler of
  \<^verbatim>\<open>POST /orders\<close> (for a body its schema accepts) behave alike.
\<close>

theorem createOrder_missing_product:
  assumes "wf s"
    and "\<exists>r \<in> set (co_items data). product_findUnique s (productId r) = None"
  shows "createOrder s data = (Inl SomeProductsNotFound, s)
       \<and> kind SomeProductsNotFound = ValidationError
       \<and> length (product_findMany_in s (map productId (co_items data))) < length (co_items data)
       \<and> (\<forall>body. createOrderSchema body = Some data \<longrightarrow>
             post_orders s body = (Inl SomeProductsNotFound, s))"
proof -
  from assms(2) obtain r
    where r: "r \<in> set (co_items data)" "product_findUnique s (productId r) = None"
    by blast
  have "length (product_findMany_in s (map productId (co_items data)))
        < length (map productId (co_items data))"
    using findMany_missing[OF assms(1) _ r(2), of "map productId (co_items data)"] r(1)
    by (simp add: image_iff) blast
  then show ?thesis
    by (simp add: createOrder_def post_orders_def Let_def)
qed

theorem createOrder_missing_product_witness:
  "createOrder shop \<lparr>co_items = [item ''nonexistent'' 1], co_note = None\<rparr>
     = (Inl SomeProductsNotFound, shop)
   \<and> post_orders shop \<lparr>ob_note = None, ob_items = Some [item ''nonexistent'' 1]\<rparr>
     = (Inl SomeProductsNotFound, shop)"
proof -
  have missing: "\<exists>r \<in> set (co_items \<lparr>co_items = [item ''nonexistent'' 1], co_note = None\<rparr>).
      product_findUnique shop (productId r) = None"
    by (simp add: product_findUnique_def shop_def coke_def item_def)
  have parsed: "createOrderSchema \<lparr>ob_note = None, ob_items = Some [item ''nonexistent'' 1]\<rparr>
      = Some \<lparr>co_items = [item ''nonexistent'' 1], co_note = None\<rparr>"
    by (simp add: createOrderSchema_def itemsSchema_def orderItemSchema_def item_def)
  from createOrder_missing_product[OF wf_shop missing] parsed show ?thesis
    by blast
qed

text \<open>
  Claim C10.  When every submitted product exists but two items name the same product,
  the lookup returns each product row once, so it returns fewer rows than there are
  items, and the call fails with \<open>SomeProductsNotFound\<close> although no product is
  missing; the store is returned as it was, so the duplicates are neither merged nor
  stored.  The same holds for the handler of \<^verbatim>\<open>POST /orders\<close> and for
  \<^verbatim>\<open>OrderService.updateOrder\<close> with such items.
\<close>

theorem createOrder_duplicate_ids:
  assumes "wf s"
    and "\<forall>r \<in> set its. product_findUnique s (productId r) \<noteq> None"
    and "\<not> distinct (map productId its)"
  shows "length (product_findMany_in s (map productId its)) < length its
       \<and> createOrder s \<lparr>co_items = its, co_note = nt\<rparr> = (Inl SomeProductsNotFound, s)
       \<and> (createOrderSchema body = Some \<lparr>co_items = its, co_note = nt\<rparr> \<longrightarrow>
             post_orders s body = (Inl SomeProductsNotFound, s))
       \<and> (order_findUnique s i \<noteq> None \<longrightarrow>
             updateOrder s i \<lparr>uo_items = Some its, uo_note = nt\<rparr> = (Inl SomeProductsNotFound, s))
       \<and> kind SomeProductsNotFound = ValidationError"
proof -
  have "length (product_findMany_in s (map productId its)) < length (map productId its)"
    using findMany_duplicate[OF assms(1,3)] .
  then show ?thesis
    by (auto simp: createOrder_def post_orders_def updateOrder_def Let_def split: option.splits)
qed

theorem createOrder_duplicate_ids_witness:
  "createOrder shop \<lparr>co_items = [item ''p1'' 2, item ''p1'' 3], co_note = None\<rparr>
     = (Inl SomeProductsNotFound, shop)
   \<and> post_orders shop \<lparr>ob_note = None, ob_items = Some [item ''p1'' 2, item ''p1'' 3]\<rparr>
     = (Inl SomeProductsNotFound, shop)
   \<and> updateOrder shop ''o1'' \<lparr>uo_items = Some [item ''p1'' 2, item ''p1'' 3], uo_note = None\<rparr>
     = (Inl SomeProductsNotFound, shop)"
proof -
  have ex: "\<forall>r \<in> set [item ''p1'' 2, item ''p1'' 3]. product_findUnique shop (productId r) \<noteq> None"
    by (simp add: product_findUnique_def shop_def coke_def item_def)
  have dup: "\<not> distinct (map productId [item ''p1'' 2, item ''p1'' 3])"
    by (simp add: item_def)
  have parsed: "createOrderSchema \<lparr>ob_note = None, ob_items = Some [item ''p1'' 2, item ''p1'' 3]\<rparr>
      = Some \<lparr>co_items = [item ''p1'' 2, item ''p1'' 3], co_note = None\<rparr>"
    by (simp add: createOrderSchema_def itemsSchema_def orderItemSchema_def item_def)
  have ord: "order_findUnique shop ''o1'' \<noteq> None"
    by (simp add: order_findUnique_def shop_def)
  from createOrder_duplicate_ids[OF wf_shop ex dup,
      where body = "\<lparr>ob_note = None, ob_items = Some [item ''p1'' 2, item ''p1'' 3]\<rparr>"
        and nt = None and i = "''o1''"]
    parsed ord
  show ?thesis by blast
qed

section \<open>Replacing the items of an order\<close>

lemma itemsOf_insertItems:
  "map submitted (filter (\<lambda>i. orderId i = oid) (insertItems oid its tbl))
   = map submitted (filter (\<lambda>i. orderId i = oid) tbl) @ its"
  by (induction its arbitrary: tbl) (auto simp: submitted_def)

lemma insertItems_others:
  "oid' \<noteq> oid \<Longrightarrow> filter (\<lambda>i. orderId i = oid') (insertItems oid its tbl)
     = filter (\<lambda>i. orderId i = oid') tbl"
  by (induction its arbitrary: tbl) auto

lemma find_order_map:
  assumes "find (\<lambda>ord. o_id ord = i) os = Some old" and "o_id row = i"
  shows "find (\<lambda>ord. o_id ord = i) (map (\<lambda>ord. if o_id ord = i then row else ord) os) = Some row"
  using assms by (induction os) (auto split: if_splits)

lemma find_order_id: "find (\<lambda>ord. o_id ord = i) os = Some old \<Longrightarrow> o_id old = i"
  by (induction os) (auto split: if_splits)

lemma replaced_items:
  "map submitted (filter (\<lambda>it. orderId it = i)
      (insertItems i its (filter (\<lambda>it. orderId it \<noteq> i) tbl))) = its"
  by (simp add: itemsOf_insertItems)

lemma productsExist_ids:
  "productsExist s its \<longleftrightarrow> set (map productId its) \<subseteq> set (map p_id (products s))"
  by (auto simp: productsExist_def list_all_iff)

lemma order_update_note:
  assumes "order_findUnique s i = Some old"
  shows "order_update s i nt [] =
     Inr (((case nt of None \<Rightarrow> old | Some n \<Rightarrow> old\<lparr>o_note := n\<rparr>), itemsOf s i),
          s\<lparr>orders := map (\<lambda>ord. if o_id ord = i
                                then (case nt of None \<Rightarrow> old | Some n \<Rightarrow> old\<lparr>o_note := n\<rparr>)
                                else ord) (orders s)\<rparr>)"
  unfolding order_update_def assms
  by (simp add: productsExist_def itemsOf_def Let_def)

lemma order_update_items:
  assumes "order_findUnique s i = Some old" and "productsExist s its"
  shows "order_update s i (Some n) its =
     Inr ((old\<lparr>o_note := n\<rparr>,
           filter (\<lambda>it. orderId it = i) (insertItems i its (orderItems s))),
          s\<lparr>orders := map (\<lambda>ord. if o_id ord = i then old\<lparr>o_note := n\<rparr> else ord) (orders s),
            orderItems := insertItems i its (orderItems s)\<rparr>)"
  unfolding order_update_def assms(1)
  using assms(2) by (simp add: itemsOf_def Let_def)

lemma order_update_found:
  assumes "order_findUnique s i = Some old"
  shows "find (\<lambda>ord. o_id ord = i)
           (map (\<lambda>ord. if o_id ord = i
                        then (case nt of None \<Rightarrow> old | Some n \<Rightarrow> old\<lparr>o_note := n\<rparr>)
                        else ord) (orders s))
         = Some (case nt of None \<Rightarrow> old | Some n \<Rightarrow> old\<lparr>o_note := n\<rparr>)"
proof -
  have f: "find (\<lambda>ord. o_id ord = i) (orders s) = Some old"
    using assms by (simp add: order_findUnique_def)
  have "o_id old = i"
    using find_order_id[OF f] .
  then have "o_id (case nt of None \<Rightarrow> old | Some n \<Rightarrow> old\<lparr>o_note := n\<rparr>) = i"
    by (cases nt) simp_all
  from find_order_map[OF f this] show ?thesis .
qed

lemma put_orders_full_replace:
  assumes "order_findUnique s i = Some old" and "ob_items body = Some its"
    and "itemsSchema its" and "productsExist s its"
  shows "\<exists>row s'. put_orders s i body = (Inr (row, itemsOf s' i), s')
           \<and> map submitted (itemsOf s' i) = its
           \<and> order_findUnique s' i = Some row
           \<and> o_note row = (case ob_note body of None \<Rightarrow> o_note old | Some n \<Rightarrow> orNull (Some n))
           \<and> products s' = products s"
proof -
  define tx1 where "tx1 = s\<lparr>orderItems := insertItems i its (filter (\<lambda>it. orderId it \<noteq> i) (orderItems s))\<rparr>"
  define nt where "nt = (case ob_note body of None \<Rightarrow> None | Some n \<Rightarrow> Some (orNull (Some n)))"
  define row where "row = (case nt of None \<Rightarrow> old | Some n \<Rightarrow> old\<lparr>o_note := n\<rparr>)"
  define s' where "s' = tx1\<lparr>orders := map (\<lambda>ord. if o_id ord = i then row else ord) (orders tx1)\<rparr>"
  have parsed: "createOrderSchema_partial body = Some \<lparr>uo_items = Some its, uo_note = ob_note body\<rparr>"
    using assms(2,3) by (simp add: createOrderSchema_partial_def)
  have cm: "orderItem_createMany (orderItem_deleteMany s i) i its = Inr tx1"
    using assms(1,4)
    by (simp add: orderItem_createMany_def orderItem_deleteMany_def productsExist_def
        order_findUnique_def tx1_def)
  have found1: "order_findUnique tx1 i = Some old"
    using assms(1) by (simp add: order_findUnique_def tx1_def)
  have up: "order_update tx1 i nt [] = Inr ((row, itemsOf tx1 i), s')"
    using order_update_note[OF found1, of nt] by (simp add: row_def s'_def)
  have same_items: "itemsOf s' i = itemsOf tx1 i"
    by (simp add: itemsOf_def s'_def)
  have res: "put_orders s i body = (Inr (row, itemsOf s' i), s')"
    unfolding put_orders_def parsed
    using assms(1) cm up same_items
    by (simp add: transaction_def nt_def)
  have its: "map submitted (itemsOf s' i) = its"
    unfolding same_items by (simp add: itemsOf_def tx1_def replaced_items)
  have found2: "order_findUnique s' i = Some row"
    using order_update_found[OF found1, of nt]
    unfolding order_findUnique_def s'_def row_def by simp
  have nt': "o_note row = (case ob_note body of None \<Rightarrow> o_note old | Some n \<Rightarrow> orNull (Some n))"
    by (cases "ob_note body") (simp_all add: row_def nt_def)
  have "products s' = products s"
    by (simp add: s'_def tx1_def)
  with res its found2 nt' show ?thesis by blast
qed

lemma updateOrder_full_replace:
  assumes "order_findUnique s i = Some old" and "wf s"
    and "distinct (map productId its)" and "productsExist s its"
  shows "\<exists>row s'. updateOrder s i \<lparr>uo_items = Some its, uo_note = nt\<rparr> = (Inr (row, itemsOf s' i), s')
           \<and> map submitted (itemsOf s' i) = its
           \<and> order_findUnique s' i = Some row
           \<and> o_note row = nt"
proof -
  define tx1 where "tx1 = orderItem_deleteMany s i"
  define row where "row = old\<lparr>o_note := nt\<rparr>"
  define s' where "s' = tx1\<lparr>orders := map (\<lambda>ord. if o_id ord = i then row else ord) (orders tx1),
                            orderItems := insertItems i its (orderItems tx1)\<rparr>"
  have len: "length (product_findMany_in s (map productId its)) = length (map productId its)"
    using findMany_all[OF assms(2,3)] assms(4) by (simp add: productsExist_ids)
  have found1: "order_findUnique tx1 i = Some old"
    using assms(1) by (simp add: order_findUnique_def tx1_def orderItem_deleteMany_def)
  have ex1: "productsExist tx1 its"
    using assms(4) by (simp add: productsExist_def tx1_def orderItem_deleteMany_def)
  have items': "itemsOf s' i = filter (\<lambda>it. orderId it = i) (insertItems i its (orderItems tx1))"
    by (simp add: itemsOf_def s'_def)
  have up: "order_update tx1 i (Some nt) its = Inr ((row, itemsOf s' i), s')"
    unfolding items' using order_update_items[OF found1 ex1, of nt] by (simp add: row_def s'_def)
  have res: "updateOrder s i \<lparr>uo_items = Some its, uo_note = nt\<rparr> = (Inr (row, itemsOf s' i), s')"
    unfolding updateOrder_def assms(1)
    using len up by (simp add: transaction_def tx1_def Let_def)
  have its: "map submitted (itemsOf s' i) = its"
    unfolding items' by (simp add: tx1_def orderItem_deleteMany_def replaced_items)
  have found2: "order_findUnique s' i = Some row"
    using order_update_found[OF found1, of "Some nt"]
    unfolding order_findUnique_def s'_def row_def option.case by simp
  have "o_note row = nt" by (simp add: row_def)
  with res its found2 show ?thesis by blast
qed

lemma updateOrder_missing_product:
  assumes "order_findUnique s i = Some old" and "wf s"
    and "r \<in> set its" and "product_findUnique s (productId r) = None"
  shows "updateOrder s i \<lparr>uo_items = Some its, uo_note = nt\<rparr> = (Inl SomeProductsNotFound, s)"
proof -
  have "length (product_findMany_in s (map productId its)) < length (map productId its)"
    using findMany_missing[OF assms(2) _ assms(4), of "map productId its"] assms(3) by simp
  then show ?thesis
    unfolding updateOrder_def assms(1) by (simp add: Let_def)
qed

lemma put_orders_missing_product:
  assumes "order_findUnique s i = Some old" and "ob_items body = Some its"
    and "itemsSchema its" and "\<not> productsExist s its"
  shows "put_orders s i body = (Inl (PrismaError ForeignKeyConstraint), s)"
proof -
  have parsed: "createOrderSchema_partial body = Some \<lparr>uo_items = Some its, uo_note = ob_note body\<rparr>"
    using assms(2,3) by (simp add: createOrderSchema_partial_def)
  have cm: "orderItem_createMany (orderItem_deleteMany s i) i its = Inl ForeignKeyConstraint"
    using assms(4)
    by (simp add: orderItem_createMany_def orderItem_deleteMany_def productsExist_def)
  show ?thesis
    unfolding put_orders_def parsed using assms(1) cm by (simp add: transaction_def)
qed

text \<open>
  Claim C2.  An update with items is a full replace: the order's items become exactly the
  submitted ones; the note changes only when the payload has one.  The handler of
  \<^verbatim>\<open>PUT /orders/:id\<close> does this (\<open>put_orders_full_replace\<close>).
  \<^verbatim>\<open>OrderService.updateOrder\<close> replaces the items too
  (\<open>updateOrder_full_replace\<close>), but writes \<^verbatim>\<open>data.note ?? null\<close>: on the
  order of the concrete store, whose note is \<open>''weekend''\<close>, an update with one item
  and no note leaves the note null, where the handler keeps it.
\<close>

theorem updateOrder_clears_omitted_note:
  "order_findUnique shop ''o1'' = Some \<lparr>o_id = ''o1'', o_note = Some ''weekend''\<rparr>
   \<and> updateOrder shop ''o1'' \<lparr>uo_items = Some [item ''p1'' 1], uo_note = None\<rparr>
     = (Inr (\<lparr>o_id = ''o1'', o_note = None\<rparr>,
             [\<lparr>productId = ''p1'', quantity = 1, i_id = ''c'', orderId = ''o1''\<rparr>]),
        \<lparr>products = [coke], orders = [\<lparr>o_id = ''o1'', o_note = None\<rparr>],
         orderItems = [\<lparr>productId = ''p1'', quantity = 1, i_id = ''c'', orderId = ''o1''\<rparr>]\<rparr>)
   \<and> put_orders shop ''o1'' \<lparr>ob_note = None, ob_items = Some [item ''p1'' 1]\<rparr>
     = (Inr (\<lparr>o_id = ''o1'', o_note = Some ''weekend''\<rparr>,
             [\<lparr>productId = ''p1'', quantity = 1, i_id = ''c'', orderId = ''o1''\<rparr>]),
        \<lparr>products = [coke], orders = [\<lparr>o_id = ''o1'', o_note = Some ''weekend''\<rparr>],
         orderItems = [\<lparr>productId = ''p1'', quantity = 1, i_id = ''c'', orderId = ''o1''\<rparr>]\<rparr>)"
  by (simp add: updateOrder_def put_orders_def createOrderSchema_partial_def itemsSchema_def
      orderItemSchema_def transaction_def orderItem_createMany_def
      orderItem_deleteMany_def order_update_def order_findUnique_def product_findMany_in_def
      productsExist_def itemsOf_def Let_def shop_def coke_def item_def freshId_def)

text \<open>
  Claim C3.  An update with items validates the submitted product ids as creation does,
  before any item row is deleted or inserted, and fails with a validation error, the
  store unchanged, when one is missing.  \<^verbatim>\<open>OrderService.updateOrder\<close> does
  this (\<open>updateOrder_missing_product\<close>).  The handler of
  \<^verbatim>\<open>PUT /orders/:id\<close> makes no lookup: it deletes the items and inserts the
  new ones inside the transaction, the insert breaks the foreign key, and the handler
  answers 500 after the rollback (\<open>put_orders_missing_product\<close>); on the concrete
  store:
\<close>

theorem put_orders_skips_product_lookup:
  "put_orders shop ''o1'' \<lparr>ob_note = None, ob_items = Some [item ''nonexistent'' 1]\<rparr>
     = (Inl (PrismaError ForeignKeyConstraint), shop)
   \<and> kind (PrismaError ForeignKeyConstraint) = PersistenceError
   \<and> statusCode (PrismaError ForeignKeyConstraint) = 500
   \<and> updateOrder shop ''o1'' \<lparr>uo_items = Some [item ''nonexistent'' 1], uo_note = None\<rparr>
     = (Inl SomeProductsNotFound, shop)"
  by (simp add: updateOrder_def put_orders_def createOrderSchema_partial_def itemsSchema_def
      orderItemSchema_def transaction_def orderItem_createMany_def
      orderItem_deleteMany_def order_update_def order_findUnique_def product_findMany_in_def
      productsExist_def itemsOf_def Let_def shop_def coke_def item_def freshId_def)

section \<open>The ordered flag\<close>

lemma find_updateMany:
  "find (\<lambda>p. p_id p = i) (map (\<lambda>p. if p_id p \<in> S then p\<lparr>isOrdered := True\<rparr> else p) ps)
   = map_option (\<lambda>p. if p_id p \<in> S then p\<lparr>isOrdered := True\<rparr> else p) (find (\<lambda>p. p_id p = i) ps)"
  by (induction ps) auto

lemma find_product_id: "find (\<lambda>p. p_id p = i) ps = Some p \<Longrightarrow> p_id p = i"
  by (induction ps) (auto split: if_splits)

lemma order_create_products:
  assumes "order_create s nt its = Inr (r, s1)"
  shows "products s1 = products s \<and> productsExist s its"
  using assms by (auto simp: order_create_def Let_def split: if_splits)

lemma post_orders_success:
  assumes "createOrderSchema body = Some data" and "post_orders s body = (Inr r, s')"
  shows "\<exists>s1. order_create s (orNull (co_note data)) (co_items data) = Inr (r, s1)
           \<and> s' = product_updateMany_isOrdered s1 (map productId (co_items data))"
proof (cases "order_create s (orNull (co_note data)) (co_items data)")
  case (Inl g)
  with assms show ?thesis
    by (simp add: post_orders_def Let_def split: if_splits)
next
  case (Inr x)
  obtain r0 s1 where x: "x = (r0, s1)" by (cases x)
  with Inr assms show ?thesis
    by (simp add: post_orders_def Let_def split: if_splits)
qed

lemma post_orders_sets_isOrdered:
  assumes "createOrderSchema body = Some data" and "post_orders s body = (Inr r, s')"
    and "it \<in> set (co_items data)"
  shows "\<exists>p. product_findUnique s' (productId it) = Some p \<and> isOrdered p"
proof -
  from post_orders_success[OF assms(1,2)] obtain s1
    where oc: "order_create s (orNull (co_note data)) (co_items data) = Inr (r, s1)"
      and s': "s' = product_updateMany_isOrdered s1 (map productId (co_items data))"
    by blast
  from order_create_products[OF oc]
  have same: "products s1 = products s" and ex: "productsExist s (co_items data)"
    by simp_all
  have "productId it \<in> set (map p_id (products s))"
    using ex assms(3) by (auto simp: productsExist_def list_all_iff)
  then obtain p where p: "find (\<lambda>p. p_id p = productId it) (products s) = Some p"
    using find_None_iff_id[of "productId it" "products s"]
    by (cases "find (\<lambda>p. p_id p = productId it) (products s)") auto
  have pid: "p_id p = productId it"
    using find_product_id[OF p] .
  have "product_findUnique s' (productId it) = Some (p\<lparr>isOrdered := True\<rparr>)"
    using p pid assms(3) same
    by (simp add: s' product_findUnique_def product_updateMany_isOrdered_def find_updateMany)
  then show ?thesis by simp
qed

text \<open>
  Claim C8.  After a successful creation of an order, every product one of its items
  names has \<^verbatim>\<open>isOrdered = true\<close>.  The handler of \<^verbatim>\<open>POST /orders\<close>
  sets the flag after the insert (\<open>post_orders_sets_isOrdered\<close>).
  \<^verbatim>\<open>OrderService.createOrder\<close> never writes a product: on the concrete store an
  order of 50 Coke succeeds and leaves Coke's flag false, where the handler sets it.
\<close>

theorem createOrder_leaves_isOrdered:
  "isOrdered coke = False
   \<and> createOrder shop \<lparr>co_items = [item ''p1'' 50], co_note = None\<rparr>
     = (Inr (\<lparr>o_id = ''ccc'', o_note = None\<rparr>,
             [\<lparr>productId = ''p1'', quantity = 50, i_id = ''ccc'', orderId = ''ccc''\<rparr>]),
        \<lparr>products = [coke],
         orders = [\<lparr>o_id = ''o1'', o_note = Some ''weekend''\<rparr>, \<lparr>o_id = ''ccc'', o_note = None\<rparr>],
         orderItems = [\<lparr>productId = ''p1'', quantity = 50, i_id = ''i1'', orderId = ''o1''\<rparr>,
                       \<lparr>productId = ''p1'', quantity = 50, i_id = ''ccc'', orderId = ''ccc''\<rparr>]\<rparr>)
   \<and> products (snd (post_orders shop \<lparr>ob_note = None, ob_items = Some [item ''p1'' 50]\<rparr>))
     = [coke\<lparr>isOrdered := True\<rparr>]"
  by (simp add: createOrder_def post_orders_def createOrderSchema_def itemsSchema_def
      orderItemSchema_def order_create_def product_findMany_in_def orNull_def
      product_updateMany_isOrdered_def
      productsExist_def itemsOf_def Let_def shop_def coke_def item_def freshId_def)

section \<open>Deleting a product\<close>

lemma delete_products_guard:
  "(product_findUnique s i = None \<longrightarrow> delete_products act s i = (Inl ProductNotFound, s))
   \<and> (product_findUnique s i \<noteq> None \<and> list_ex (\<lambda>it. productId it = i) (orderItems s) \<longrightarrow>
        delete_products act s i = (Inl HasRelatedOrders, s))
   \<and> (product_findUnique s i \<noteq> None \<and> \<not> list_ex (\<lambda>it. productId it = i) (orderItems s) \<longrightarrow>
        delete_products act s i
          = (Inr (), s\<lparr>products := filter (\<lambda>p. p_id p \<noteq> i) (products s)\<rparr>))"
proof -
  have eq: "filter (\<lambda>it. productId it \<noteq> i) (orderItems s) = orderItems s"
    if "\<not> list_ex (\<lambda>it. productId it = i) (orderItems s)"
    using that by (simp add: list_ex_iff filter_id_conv)
  have len: "0 < length (filter (\<lambda>it. productId it = i) (orderItems s))
      \<longleftrightarrow> list_ex (\<lambda>it. productId it = i) (orderItems s)"
    by (simp add: list_ex_iff filter_empty_conv)
  show ?thesis
    unfolding delete_products_def len
    by (cases "product_findUnique s i") (auto simp: product_delete_def eq)
qed

lemma deleteProduct_never_conflict:
  "fst (deleteProduct act s i) \<noteq> Inl HasRelatedOrders"
  by (auto simp: deleteProduct_def split: option.splits sum.splits)

text \<open>
  Claim C4.  Deleting a product that an order item references fails with a conflict and
  leaves the product stored; deleting succeeds only for an unreferenced product, and an
  unknown id is not found.  The handler of \<^verbatim>\<open>DELETE /products/:id\<close> does
  this (\<open>delete_products_guard\<close>).  \<^verbatim>\<open>ProductService.deleteProduct\<close> has
  no such check (\<open>deleteProduct_never_conflict\<close>): for the referenced Coke of the
  concrete store it passes the delete to the gateway, which answers with a foreign-key
  failure when the schema restricts the delete and deletes the product together with
  the item when the schema cascades.
\<close>

theorem deleteProduct_without_guard:
  "deleteProduct Restrict shop ''p1'' = (Inl (PrismaError ForeignKeyConstraint), shop)
   \<and> deleteProduct Cascade shop ''p1''
     = (Inr (), \<lparr>products = [], orders = [\<lparr>o_id = ''o1'', o_note = Some ''weekend''\<rparr>],
                 orderItems = []\<rparr>)
   \<and> kind (PrismaError ForeignKeyConstraint) = PersistenceError
   \<and> delete_products Restrict shop ''p1'' = (Inl HasRelatedOrders, shop)
   \<and> delete_products Cascade shop ''p1'' = (Inl HasRelatedOrders, shop)
   \<and> kind HasRelatedOrders = ConflictError"
  by (simp add: deleteProduct_def delete_products_def product_delete_def product_findUnique_def
      shop_def coke_def)

section \<open>Product rows\<close>

lemma applyUpdate_id [simp]: "p_id (applyUpdate d p) = p_id p"
  by (simp add: applyUpdate_def)

section \<open>Vendor validation\<close>

lemma barcode_lookup_None:
  "product_findUnique_barcode s b = None \<longleftrightarrow> \<not> list_ex (\<lambda>p. barcode p = b) (products s)"
  by (auto simp: product_findUnique_barcode_def find_None_iff list_ex_iff)

lemma createProduct_invalid_vendor:
  assumes "product_findUnique_barcode s (c_barcode data) = None"
    and "c_vendors data = Some vs" and "v \<in> set vs" and "v \<notin> set VENDORS"
  shows "createProduct s data = (Inl InvalidVendorIds, s)"
proof -
  have "vs \<noteq> []" using assms(3) by auto
  moreover have "\<not> validateVendorIds vs"
    using assms(3,4) by (auto simp: validateVendorIds_def list_all_iff)
  ultimately have "vendorsRejected (c_vendors data)"
    by (simp add: vendorsRejected_def assms(2))
  then show ?thesis
    unfolding createProduct_def assms(1) by simp
qed

lemma createProduct_no_vendors:
  assumes "product_findUnique_barcode s (c_barcode data) = None"
    and "orEmpty (c_vendors data) = []"
  shows "\<exists>row. createProduct s data = (Inr row, s\<lparr>products := products s @ [row]\<rparr>)
           \<and> vendors row = [] \<and> isOrdered row = False \<and> status row = ACTIVE"
proof -
  have nr: "\<not> vendorsRejected (c_vendors data)"
    using assms(2) by (cases "c_vendors data") (simp_all add: vendorsRejected_def orEmpty_def)
  have free: "\<not> list_ex (\<lambda>p. barcode p = c_barcode data) (products s)"
    using assms(1) by (simp add: barcode_lookup_None)
  show ?thesis
    unfolding createProduct_def assms(1)
    using nr free assms(2) by (simp add: product_create_def Let_def)
qed

lemma post_products_never_checks_vendors:
  "fst (post_products s body) \<noteq> Inl InvalidVendorIds"
  by (auto simp: post_products_def split: option.splits sum.splits)

text \<open>
  Claim C7.  Creating a product with a non-empty vendor list fails with a validation
  error, nothing persisted, when one of the ids is not in the vendor registry; with an
  empty or missing list nothing is checked and the product is stored without vendors.
  \<^verbatim>\<open>ProductService.createProduct\<close> does this for a barcode that is not in use
  (\<open>createProduct_invalid_vendor\<close>, \<open>createProduct_no_vendors\<close>; the barcode check
  comes first).  The handler of \<^verbatim>\<open>POST /products\<close> never calls the vendor
  service (\<open>post_products_never_checks_vendors\<close>): on the empty store it stores a
  product whose vendor list is \<open>[''99'']\<close>, an id the registry does not have, where the
  service refuses the same data.
\<close>

theorem post_products_accepts_unknown_vendor:
  "validateVendorIds [''99''] = False
   \<and> post_products emptyDb teaBody
     = (Inr \<lparr>p_id = ''c'', name = ''Tea'', barcode = ''TEA-001'', costPrice = 10, sellPrice = 20,
             status = ACTIVE, isOrdered = False, tags = [], vendors = [''99''],
             imagePath = None, p_note = None\<rparr>,
        \<lparr>products = [\<lparr>p_id = ''c'', name = ''Tea'', barcode = ''TEA-001'', costPrice = 10,
                       sellPrice = 20, status = ACTIVE, isOrdered = False, tags = [],
                       vendors = [''99''], imagePath = None, p_note = None\<rparr>],
         orders = [], orderItems = []\<rparr>)
   \<and> createProduct emptyDb
        \<lparr>c_name = ''Tea'', c_barcode = ''TEA-001'', c_costPrice = 10, c_sellPrice = 20,
         c_vendors = Some [''99''], c_imagePath = None, c_tags = None, c_note = None\<rparr>
     = (Inl InvalidVendorIds, emptyDb)"
  by (simp add: post_products_def createProduct_def createProductSchema_def product_create_def
      product_findUnique_barcode_def validateVendorIds_def VENDORS_def vendorsRejected_def
      orEmpty_def orNull_def emptyDb_def teaBody_def freshId_def Let_def)

section \<open>Barcode uniqueness\<close>

lemma length_le_foldr_max: "u \<in> set used \<Longrightarrow> length u \<le> foldr (\<lambda>u n. max (length u) n) used 0"
  by (induction used) auto

lemma freshId_fresh: "freshId used \<notin> set used"
proof
  assume "freshId used \<in> set used"
  from length_le_foldr_max[OF this] show False
    by (simp add: freshId_def)
qed

lemma product_create_consistent:
  assumes "consistent s" and "product_create s nm bc cp sp vs ip tg nt st = Inr (row, s')"
  shows "consistent s'"
proof -
  have free: "\<not> list_ex (\<lambda>p. barcode p = bc) (products s)"
    using assms(2) by (auto simp: product_create_def split: if_splits)
  have s': "products s' = products s @ [row]" and row: "barcode row = bc"
    "p_id row = freshId (map p_id (products s))"
    using assms(2) by (auto simp: product_create_def Let_def split: if_splits)
  have "bc \<notin> set (map barcode (products s))"
    using free by (auto simp: list_ex_iff)
  moreover have "p_id row \<notin> set (map p_id (products s))"
    unfolding row by (rule freshId_fresh)
  ultimately show ?thesis
    using assms(1) by (simp add: consistent_def wf_def barcodeUnique_def s' row)
qed

lemma applyUpdate_barcode:
  "barcode (applyUpdate d p) = (case d_barcode d of None \<Rightarrow> barcode p | Some b \<Rightarrow> b)"
  by (simp add: applyUpdate_def)

lemma distinct_barcode_update:
  assumes "distinct (map p_id ps)" and "distinct (map barcode ps)"
    and "\<forall>p \<in> set ps. p_id p \<noteq> i \<longrightarrow> barcode p \<noteq> b"
    and "\<And>p. barcode (f p) = b"
  shows "distinct (map barcode (map (\<lambda>p. if p_id p = i then f p else p) ps))"
  using assms(1-3)
proof (induction ps)
  case Nil
  then show ?case by simp
next
  case (Cons p ps)
  have IH: "distinct (map barcode (map (\<lambda>p. if p_id p = i then f p else p) ps))"
    using Cons by simp
  show ?case
  proof (cases "p_id p = i")
    case True
    then have noi: "\<forall>q \<in> set ps. p_id q \<noteq> i"
      using Cons.prems(1) by (fastforce simp: image_iff)
    then have same: "map (\<lambda>p. if p_id p = i then f p else p) ps = ps"
      by (simp add: map_idI)
    have "b \<notin> set (map barcode ps)"
      using noi Cons.prems(3) by auto
    with True same Cons.prems(2) show ?thesis
      by (simp add: assms(4))
  next
    case False
    then have pb: "barcode p \<noteq> b"
      using Cons.prems(3) by simp
    have "barcode p \<notin> set (map barcode (map (\<lambda>p. if p_id p = i then f p else p) ps))"
    proof
      assume "barcode p \<in> set (map barcode (map (\<lambda>p. if p_id p = i then f p else p) ps))"
      then obtain q where q: "q \<in> set ps"
        "barcode p = barcode (if p_id q = i then f q else q)"
        by auto
      show False
      proof (cases "p_id q = i")
        case True
        with q(2) pb show False by (simp add: assms(4))
      next
        case False
        with q Cons.prems(2) show False by auto
      qed
    qed
    with False IH show ?thesis by simp
  qed
qed

lemma product_update_consistent:
  assumes "consistent s" and "product_update s i d = Inr (row, s')"
  shows "consistent s'"
proof -
  have s': "products s' = map (\<lambda>p. if p_id p = i then applyUpdate d p else p) (products s)"
    using assms(2) by (auto simp: product_update_def split: option.splits if_splits)
  have ids: "map p_id (products s') = map p_id (products s)"
    by (simp add: s' o_def)
  have wf': "wf s'"
    using assms(1) by (simp add: consistent_def wf_def ids)
  have "barcodeUnique s'"
  proof (cases "d_barcode d")
    case None
    have "map barcode (products s') = map barcode (products s)"
      by (simp add: s' o_def applyUpdate_barcode None)
    with assms(1) show ?thesis by (simp add: consistent_def barcodeUnique_def)
  next
    case (Some b)
    have free: "\<forall>p \<in> set (products s). p_id p \<noteq> i \<longrightarrow> barcode p \<noteq> b"
      using assms(2) Some
      by (auto simp: product_update_def list_ex_iff split: option.splits if_splits)
    have "\<And>p. barcode (applyUpdate d p) = b"
      by (simp add: applyUpdate_barcode Some)
    from distinct_barcode_update[OF _ _ free this] assms(1) show ?thesis
      by (simp add: consistent_def wf_def barcodeUnique_def s')
  qed
  with wf' show ?thesis by (simp add: consistent_def)
qed

lemma createProduct_consistent: "consistent s \<Longrightarrow> consistent (snd (createProduct s d))"
  by (auto simp: createProduct_def split: option.splits sum.splits dest: product_create_consistent)

lemma post_products_consistent: "consistent s \<Longrightarrow> consistent (snd (post_products s b))"
  by (auto simp: post_products_def split: option.splits sum.splits dest: product_create_consistent)

lemma updateProduct_consistent: "consistent s \<Longrightarrow> consistent (snd (updateProduct s i d))"
  by (auto simp: updateProduct_def Let_def split: option.splits sum.splits dest: product_update_consistent)

lemma put_products_consistent: "consistent s \<Longrightarrow> consistent (snd (put_products s i b))"
  by (auto simp: put_products_def Let_def split: option.splits sum.splits dest: product_update_consistent)

lemma after_consistent: "consistent s \<Longrightarrow> consistent (after s c)"
  by (cases c) (simp_all add: createProduct_consistent post_products_consistent updateProduct_consistent put_products_consistent)

lemma run_consistent: "consistent s \<Longrightarrow> consistent (run s cs)"
  by (induction cs arbitrary: s) (simp_all add: after_consistent)

lemma distinct_filter_le_1:
  "distinct (map f xs) \<Longrightarrow> length (filter (\<lambda>x. f x = b) xs) \<le> 1"
proof (induction xs)
  case Nil
  then show ?case by simp
next
  case (Cons x xs)
  show ?case
  proof (cases "f x = b")
    case True
    then have "\<forall>y \<in> set xs. f y \<noteq> b" using Cons.prems by (fastforce simp: image_iff)
    then have "filter (\<lambda>x. f x = b) xs = []" by (simp add: filter_empty_conv)
    with True show ?thesis by simp
  next
    case False
    with Cons show ?thesis by simp
  qed
qed

lemma consistent_emptyDb: "consistent emptyDb"
  by (simp add: consistent_def wf_def barcodeUnique_def emptyDb_def)

lemma createProduct_used_barcode:
  assumes "list_ex (\<lambda>p. barcode p = c_barcode data) (products s)"
  shows "createProduct s data = (Inl BarcodeAlreadyExists, s)"
proof -
  have "product_findUnique_barcode s (c_barcode data) \<noteq> None"
    using assms by (simp add: barcode_lookup_None)
  then show ?thesis
    by (auto simp: createProduct_def split: option.splits)
qed

lemma post_products_used_barcode:
  assumes "createProductSchema body = Some pd"
    and "list_ex (\<lambda>p. barcode p = pd_barcode pd) (products s)"
  shows "post_products s body = (Inl BarcodeAlreadyExists, s)"
proof -
  have "product_findUnique_barcode s (pd_barcode pd) \<noteq> None"
    using assms(2) by (simp add: barcode_lookup_None)
  then show ?thesis
    unfolding post_products_def assms(1) by (auto split: option.splits)
qed

text \<open>The lookup of \<^verbatim>\<open>updateProduct\<close> is skipped for an empty barcode, which
  is falsy; the unique constraint of the gateway then refuses the write.\<close>

lemma updateProduct_empty_barcode:
  "updateProduct \<lparr>products = [coke\<lparr>barcode := []\<rparr>, coke\<lparr>p_id := ''p2''\<rparr>], orders = [],
                   orderItems = []\<rparr> ''p2'' (priceOnly\<lparr>u_barcode := Some []\<rparr>)
   = (Inl (PrismaError UniqueConstraint),
      \<lparr>products = [coke\<lparr>barcode := []\<rparr>, coke\<lparr>p_id := ''p2''\<rparr>], orders = [],
       orderItems = []\<rparr>)"
  by (simp add: updateProduct_def product_update_def product_findUnique_def barcodeTaken_def
      vendorsRejected_def priceOnly_def coke_def Let_def)

text \<open>
  Claim C5.  Barcode uniqueness is an invariant: after any sequence of
  \<^verbatim>\<open>createProduct\<close> and \<^verbatim>\<open>updateProduct\<close> calls (through the service or
  through the routes) from a consistent store, at most one product has a given barcode;
  a creation with a barcode in use fails with \<open>BarcodeAlreadyExists\<close> (a conflict) and
  returns the store as it was, so the first product is not modified.
\<close>

theorem barcode_uniqueness:
  assumes "consistent s"
  shows "consistent (run s cs)
       \<and> length (filter (\<lambda>p. barcode p = b) (products (run s cs))) \<le> 1
       \<and> (list_ex (\<lambda>p. barcode p = c_barcode data) (products (run s cs)) \<longrightarrow>
            createProduct (run s cs) data = (Inl BarcodeAlreadyExists, run s cs))
       \<and> (createProductSchema body = Some pd
            \<and> list_ex (\<lambda>p. barcode p = pd_barcode pd) (products (run s cs)) \<longrightarrow>
            post_products (run s cs) body = (Inl BarcodeAlreadyExists, run s cs))
       \<and> kind BarcodeAlreadyExists = ConflictError"
proof -
  have c: "consistent (run s cs)"
    using assms by (rule run_consistent)
  then have "distinct (map barcode (products (run s cs)))"
    by (simp add: consistent_def barcodeUnique_def)
  then have "length (filter (\<lambda>p. barcode p = b) (products (run s cs))) \<le> 1"
    by (rule distinct_filter_le_1)
  with c show ?thesis
    using createProduct_used_barcode[of data "run s cs"]
      post_products_used_barcode[of body pd "run s cs"]
    by simp
qed

lemma run_coke:
  "run emptyDb [CreateProduct cokeRequest] = \<lparr>products = [coke\<lparr>p_id := ''c''\<rparr>], orders = [], orderItems = []\<rparr>"
  by (simp add: createProduct_def product_create_def product_findUnique_barcode_def
      vendorsRejected_def orEmpty_def orNull_def cokeRequest_def coke_def emptyDb_def
      freshId_def Let_def)

theorem barcode_uniqueness_witness:
  "consistent (run emptyDb [CreateProduct cokeRequest, CreateProduct cokeRequest,
       UpdateProduct ''c'' priceOnly])
   \<and> createProduct (run emptyDb [CreateProduct cokeRequest]) cokeRequest
       = (Inl BarcodeAlreadyExists, run emptyDb [CreateProduct cokeRequest])
   \<and> products (run emptyDb [CreateProduct cokeRequest, CreateProduct cokeRequest])
       = [coke\<lparr>p_id := ''c''\<rparr>]"
proof -
  have used: "list_ex (\<lambda>p. barcode p = c_barcode cokeRequest)
      (products (run emptyDb [CreateProduct cokeRequest]))"
    unfolding run_coke by (simp add: cokeRequest_def coke_def)
  from barcode_uniqueness[OF consistent_emptyDb, of "[CreateProduct cokeRequest]" _ cokeRequest] used
  have second: "createProduct (run emptyDb [CreateProduct cokeRequest]) cokeRequest
       = (Inl BarcodeAlreadyExists, run emptyDb [CreateProduct cokeRequest])"
    by blast
  have "run emptyDb [CreateProduct cokeRequest, CreateProduct cokeRequest]
        = run emptyDb [CreateProduct cokeRequest]"
    using second by simp
  then have "products (run emptyDb [CreateProduct cokeRequest, CreateProduct cokeRequest])
       = [coke\<lparr>p_id := ''c''\<rparr>]"
    by (simp only: run_coke db.simps)
  with second barcode_uniqueness[OF consistent_emptyDb,
      of "[CreateProduct cokeRequest, CreateProduct cokeRequest, UpdateProduct ''c'' priceOnly]"]
  show ?thesis by blast
qed

section \<open>Every operation keeps the product table consistent\<close>

text \<open>The calls on orders never write an id or a barcode of a product, and a delete
  removes rows; with \<open>run_consistent\<close> every modelled operation keeps the primary
  key and the barcode constraint.  The two creations report every barcode conflict
  themselves, and so does the handler of \<^verbatim>\<open>PUT /products/:id\<close> on a consistent
  store: the gateway's constraint never fires for them.\<close>

lemma order_update_products:
  "order_update s i nt its = Inr (r, s') \<Longrightarrow> products s' = products s"
  by (auto simp: order_update_def Let_def split: option.splits if_splits)

lemma createOrder_products: "products (snd (createOrder s d)) = products s"
  by (auto simp: createOrder_def Let_def split: sum.splits dest: order_create_products)

lemma deleteMany_products: "products (orderItem_deleteMany s i) = products s"
  by (simp add: orderItem_deleteMany_def)

lemma transaction_products:
  assumes "\<And>r tx. f s = (Inr r, tx) \<Longrightarrow> products tx = products s"
  shows "products (snd (transaction f s)) = products s"
proof (cases "f s")
  case (Pair res tx)
  then show ?thesis
    using assms by (cases res) (simp_all add: transaction_def)
qed

lemma updateOrder_products: "products (snd (updateOrder s i d)) = products s"
proof (cases "order_findUnique s i")
  case None
  then show ?thesis by (simp add: updateOrder_def)
next
  case (Some old)
  show ?thesis
  proof (cases "uo_items d")
    case None
    with Some show ?thesis
      by (auto simp: updateOrder_def split: sum.splits dest: order_update_products)
  next
    case (Some its)
    have "products (snd (transaction (\<lambda>tx.
             (let tx1 = orderItem_deleteMany tx i
              in case order_update tx1 i (Some (uo_note d)) its of
                   Inl g \<Rightarrow> (Inl (PrismaError g), tx1)
                 | Inr (r, tx2) \<Rightarrow> (Inr r, tx2))) s)) = products s"
      by (rule transaction_products)
        (auto simp: Let_def deleteMany_products split: sum.splits dest!: order_update_products)
    with Some \<open>order_findUnique s i = Some old\<close> show ?thesis
      by (simp add: updateOrder_def Let_def)
  qed
qed

lemma createMany_products:
  "orderItem_createMany s i its = Inr tx \<Longrightarrow> products tx = products s"
  by (auto simp: orderItem_createMany_def split: if_splits)

lemma put_orders_products: "products (snd (put_orders s i b)) = products s"
proof (cases "createOrderSchema_partial b")
  case None
  then show ?thesis by (simp add: put_orders_def)
next
  case (Some updateData)
  show ?thesis
  proof (cases "order_findUnique s i")
    case None
    with Some show ?thesis by (simp add: put_orders_def)
  next
    case found: (Some old)
    have "products (snd (transaction (\<lambda>tx.
                 (case (case uo_items updateData of
                          None \<Rightarrow> Inr tx
                        | Some its \<Rightarrow> orderItem_createMany (orderItem_deleteMany tx i) i its) of
                    Inl g \<Rightarrow> (Inl (PrismaError g), orderItem_deleteMany tx i)
                  | Inr tx1 \<Rightarrow>
                      (let updatePayload =
                             (case uo_note updateData of
                                None \<Rightarrow> None
                              | Some n \<Rightarrow> Some (orNull (Some n)))
                       in case order_update tx1 i updatePayload [] of
                            Inl g \<Rightarrow> (Inl (PrismaError g), tx1)
                          | Inr (r, tx2) \<Rightarrow> (Inr r, tx2)))) s)) = products s"
      by (rule transaction_products)
        (auto simp: Let_def deleteMany_products split: sum.splits option.splits
          dest!: order_update_products createMany_products)
    with Some found show ?thesis
      by (simp add: put_orders_def)
  qed
qed

lemma post_orders_consistent: "consistent s \<Longrightarrow> consistent (snd (post_orders s b))"
proof -
  have upd: "consistent (product_updateMany_isOrdered s1 ids)" if "consistent s1" for s1 ids
  proof -
    have "map p_id (products (product_updateMany_isOrdered s1 ids)) = map p_id (products s1)"
      "map barcode (products (product_updateMany_isOrdered s1 ids)) = map barcode (products s1)"
      by (simp_all add: product_updateMany_isOrdered_def o_def if_distrib cong: if_cong)
    with that show ?thesis by (simp add: consistent_def wf_def barcodeUnique_def)
  qed
  have oc: "consistent s1" if "consistent s" "order_create s nt its = Inr (r, s1)" for s1 nt its r
    using that order_create_products[OF that(2)] by (simp add: consistent_def wf_def barcodeUnique_def)
  assume "consistent s"
  then show ?thesis
    by (auto simp: post_orders_def Let_def split: option.splits sum.splits intro!: upd dest: oc)
qed

lemma product_delete_consistent:
  "consistent s \<Longrightarrow> product_delete act s i = Inr s' \<Longrightarrow> consistent s'"
  by (auto simp: product_delete_def consistent_def wf_def barcodeUnique_def distinct_map_filter
      split: option.splits if_splits)

lemma deleteProduct_consistent: "consistent s \<Longrightarrow> consistent (snd (deleteProduct act s i))"
  by (auto simp: deleteProduct_def split: option.splits sum.splits dest: product_delete_consistent)

lemma delete_products_consistent: "consistent s \<Longrightarrow> consistent (snd (delete_products act s i))"
  by (auto simp: delete_products_def split: option.splits sum.splits dest: product_delete_consistent)

lemma createProduct_reports_conflict:
  "fst (createProduct s d) \<noteq> Inl (PrismaError UniqueConstraint)"
  by (auto simp: createProduct_def product_create_def barcode_lookup_None Let_def
      split: option.splits sum.splits if_splits)

lemma post_products_reports_conflict:
  "fst (post_products s b) \<noteq> Inl (PrismaError UniqueConstraint)"
  by (auto simp: post_products_def product_create_def barcode_lookup_None Let_def
      split: option.splits sum.splits if_splits)

lemma put_products_reports_conflict:
  assumes "consistent s"
  shows "fst (put_products s i b) \<noteq> Inl (PrismaError UniqueConstraint)"
proof
  assume bad: "fst (put_products s i b) = Inl (PrismaError UniqueConstraint)"
  then have parsed: "createProductSchema_partial b = Some b"
    by (auto simp: put_products_def createProductSchema_partial_def split: if_splits)
  from bad parsed obtain old where old: "product_findUnique s i = Some old"
    by (cases "product_findUnique s i") (auto simp: put_products_def)
  from bad parsed old have free: "\<not> barcodeTaken s old (pb_barcode b)"
    by (auto simp: put_products_def split: if_splits)
  from bad parsed old free obtain v q
    where v: "pb_barcode b = Some v" and q: "q \<in> set (products s)" "p_id q \<noteq> i" "barcode q = v"
    by (auto simp: put_products_def product_update_def Let_def list_ex_iff
        split: option.splits if_splits sum.splits)
  have nonempty: "v \<noteq> []"
    using parsed v by (auto simp: createProductSchema_partial_def split: if_splits)
  have "product_findUnique_barcode s v \<noteq> None"
    using q by (auto simp: barcode_lookup_None list_ex_iff)
  with free v nonempty have same: "v = barcode old"
    by (simp add: barcodeTaken_def)
  have f: "find (\<lambda>p. p_id p = i) (products s) = Some old"
    using old by (simp add: product_findUnique_def)
  have oldin: "old \<in> set (products s)"
    using f by (auto simp: find_Some_iff)
  have "p_id old = i" using find_product_id[OF f] .
  with q(2) have "q \<noteq> old" by auto
  moreover have "inj_on barcode (set (products s))"
    using assms by (simp add: consistent_def barcodeUnique_def distinct_map)
  ultimately show False
    using q(1,3) oldin same by (auto dest: inj_onD)
qed

section \<open>Sparse product updates\<close>

lemma find_product_map:
  "find (\<lambda>p. p_id p = j) (map (\<lambda>p. if p_id p = i then applyUpdate d p else p) ps)
   = map_option (\<lambda>p. if p_id p = i then applyUpdate d p else p) (find (\<lambda>p. p_id p = j) ps)"
  by (induction ps) auto

lemma product_update_result:
  assumes "product_findUnique s i = Some p" and "product_update s i d = Inr (row, s')"
  shows "row = applyUpdate d p
       \<and> product_findUnique s' i = Some row
       \<and> (\<forall>j. j \<noteq> i \<longrightarrow> product_findUnique s' j = product_findUnique s j)
       \<and> orders s' = orders s \<and> orderItems s' = orderItems s"
proof -
  have f: "find (\<lambda>p. p_id p = i) (products s) = Some p"
    using assms(1) by (simp add: product_findUnique_def)
  have pid: "p_id p = i" using find_product_id[OF f] .
  have res: "row = applyUpdate d p"
    "s' = s\<lparr>products := map (\<lambda>p. if p_id p = i then applyUpdate d p else p) (products s)\<rparr>"
    using assms by (auto simp: product_update_def split: if_splits)
  have a: "product_findUnique s' i = Some row"
    by (simp add: res product_findUnique_def find_product_map f pid)
  have b: "product_findUnique s' j = product_findUnique s j" if "j \<noteq> i" for j
  proof (cases "find (\<lambda>p. p_id p = j) (products s)")
    case None
    then show ?thesis by (simp add: res product_findUnique_def find_product_map)
  next
    case (Some q)
    from find_product_id[OF Some] that have "p_id q \<noteq> i" by simp
    with Some show ?thesis by (simp add: res product_findUnique_def find_product_map)
  qed
  from res a b show ?thesis by simp
qed

lemma updateProduct_result:
  assumes "updateProduct s i data = (Inr row, s')"
  shows "product_update s i
            \<lparr>d_name = u_name data, d_barcode = u_barcode data,
             d_costPrice = u_costPrice data, d_sellPrice = u_sellPrice data,
             d_vendors = u_vendors data, d_imagePath = map_option Some (u_imagePath data),
             d_status = u_status data, d_isOrdered = u_isOrdered data,
             d_tags = u_tags data, d_note = map_option Some (u_note data)\<rparr> = Inr (row, s')"
  using assms
  by (auto simp: updateProduct_def Let_def split: option.splits if_splits sum.splits)

lemma updateProduct_failure:
  assumes "updateProduct s i data = (Inl e, s')"
  shows "s' = s"
  using assms
  by (auto simp: updateProduct_def Let_def split: option.splits if_splits sum.splits)

lemma put_products_result:
  assumes "put_products s i body = (Inr row, s')"
  shows "product_update s i
            \<lparr>d_name = pb_name body, d_barcode = pb_barcode body,
             d_costPrice = pb_costPrice body, d_sellPrice = pb_sellPrice body,
             d_vendors = pb_vendorIds body,
             d_imagePath = map_option (\<lambda>v. orNull (Some v)) (pb_imagePath body),
             d_status = pb_status body, d_isOrdered = None,
             d_tags = pb_tags body,
             d_note = map_option (\<lambda>v. orNull (Some v)) (pb_note body)\<rparr> = Inr (row, s')"
  using assms
  by (auto simp: put_products_def createProductSchema_partial_def Let_def
      split: option.splits if_splits sum.splits)

lemma put_products_failure:
  assumes "put_products s i body = (Inl e, s')"
  shows "s' = s"
  using assms
  by (auto simp: put_products_def Let_def split: option.splits if_splits sum.splits)

lemma updateProduct_succeeds:
  assumes "product_findUnique s i = Some p" and "u_barcode data = None"
    and "\<not> vendorsRejected (u_vendors data)"
  shows "\<exists>row s'. updateProduct s i data = (Inr row, s')"
  unfolding updateProduct_def assms(1)
  using assms by (simp add: barcodeTaken_def product_update_def Let_def)

lemma applyUpdate_fields:
  "name (applyUpdate d p) = (case d_name d of None \<Rightarrow> name p | Some v \<Rightarrow> v)"
  "barcode (applyUpdate d p) = (case d_barcode d of None \<Rightarrow> barcode p | Some v \<Rightarrow> v)"
  "costPrice (applyUpdate d p) = (case d_costPrice d of None \<Rightarrow> costPrice p | Some v \<Rightarrow> v)"
  "sellPrice (applyUpdate d p) = (case d_sellPrice d of None \<Rightarrow> sellPrice p | Some v \<Rightarrow> v)"
  "status (applyUpdate d p) = (case d_status d of None \<Rightarrow> status p | Some v \<Rightarrow> v)"
  "isOrdered (applyUpdate d p) = (case d_isOrdered d of None \<Rightarrow> isOrdered p | Some v \<Rightarrow> v)"
  "tags (applyUpdate d p) = (case d_tags d of None \<Rightarrow> tags p | Some v \<Rightarrow> v)"
  "vendors (applyUpdate d p) = (case d_vendors d of None \<Rightarrow> vendors p | Some v \<Rightarrow> v)"
  "imagePath (applyUpdate d p) = (case d_imagePath d of None \<Rightarrow> imagePath p | Some v \<Rightarrow> v)"
  "p_note (applyUpdate d p) = (case d_note d of None \<Rightarrow> p_note p | Some v \<Rightarrow> v)"
  by (simp_all add: applyUpdate_def)

lemma case_map_option:
  "(case map_option f x of None \<Rightarrow> a | Some v \<Rightarrow> v) = (case x of None \<Rightarrow> a | Some v \<Rightarrow> f v)"
  by (cases x) simp_all

lemma updateProduct_fields:
  assumes "product_findUnique s i = Some p" and "updateProduct s i data = (Inr row, s')"
  shows "p_id row = p_id p
          \<and> name row = (case u_name data of None \<Rightarrow> name p | Some v \<Rightarrow> v)
          \<and> barcode row = (case u_barcode data of None \<Rightarrow> barcode p | Some v \<Rightarrow> v)
          \<and> costPrice row = (case u_costPrice data of None \<Rightarrow> costPrice p | Some v \<Rightarrow> v)
          \<and> sellPrice row = (case u_sellPrice data of None \<Rightarrow> sellPrice p | Some v \<Rightarrow> v)
          \<and> status row = (case u_status data of None \<Rightarrow> status p | Some v \<Rightarrow> v)
          \<and> isOrdered row = (case u_isOrdered data of None \<Rightarrow> isOrdered p | Some v \<Rightarrow> v)
          \<and> tags row = (case u_tags data of None \<Rightarrow> tags p | Some v \<Rightarrow> v)
          \<and> vendors row = (case u_vendors data of None \<Rightarrow> vendors p | Some v \<Rightarrow> v)
          \<and> imagePath row = (case u_imagePath data of None \<Rightarrow> imagePath p | Some v \<Rightarrow> Some v)
          \<and> p_note row = (case u_note data of None \<Rightarrow> p_note p | Some v \<Rightarrow> Some v)
          \<and> product_findUnique s' i = Some row
          \<and> (\<forall>j. j \<noteq> i \<longrightarrow> product_findUnique s' j = product_findUnique s j)"
proof -
  from product_update_result[OF assms(1) updateProduct_result[OF assms(2)]]
  have row: "row = applyUpdate
            \<lparr>d_name = u_name data, d_barcode = u_barcode data,
             d_costPrice = u_costPrice data, d_sellPrice = u_sellPrice data,
             d_vendors = u_vendors data, d_imagePath = map_option Some (u_imagePath data),
             d_status = u_status data, d_isOrdered = u_isOrdered data,
             d_tags = u_tags data, d_note = map_option Some (u_note data)\<rparr> p"
    and rest: "product_findUnique s' i = Some row"
      "\<forall>j. j \<noteq> i \<longrightarrow> product_findUnique s' j = product_findUnique s j"
    by blast+
  show ?thesis
    unfolding row[symmetric]
    apply (intro conjI rest)
    unfolding row
    by (simp_all only: applyUpdate_id applyUpdate_fields ProductUpdateInput.simps case_map_option)
qed

lemma put_products_fields:
  assumes "product_findUnique s i = Some p" and "put_products s i body = (Inr row, s')"
  shows "p_id row = p_id p
          \<and> name row = (case pb_name body of None \<Rightarrow> name p | Some v \<Rightarrow> v)
          \<and> barcode row = (case pb_barcode body of None \<Rightarrow> barcode p | Some v \<Rightarrow> v)
          \<and> costPrice row = (case pb_costPrice body of None \<Rightarrow> costPrice p | Some v \<Rightarrow> v)
          \<and> sellPrice row = (case pb_sellPrice body of None \<Rightarrow> sellPrice p | Some v \<Rightarrow> v)
          \<and> status row = (case pb_status body of None \<Rightarrow> status p | Some v \<Rightarrow> v)
          \<and> isOrdered row = isOrdered p
          \<and> tags row = (case pb_tags body of None \<Rightarrow> tags p | Some v \<Rightarrow> v)
          \<and> vendors row = (case pb_vendorIds body of None \<Rightarrow> vendors p | Some v \<Rightarrow> v)
          \<and> imagePath row = (case pb_imagePath body of None \<Rightarrow> imagePath p | Some v \<Rightarrow> orNull (Some v))
          \<and> p_note row = (case pb_note body of None \<Rightarrow> p_note p | Some v \<Rightarrow> orNull (Some v))
          \<and> product_findUnique s' i = Some row
          \<and> (\<forall>j. j \<noteq> i \<longrightarrow> product_findUnique s' j = product_findUnique s j)"
proof -
  from product_update_result[OF assms(1) put_products_result[OF assms(2)]]
  have row: "row = applyUpdate
            \<lparr>d_name = pb_name body, d_barcode = pb_barcode body,
             d_costPrice = pb_costPrice body, d_sellPrice = pb_sellPrice body,
             d_vendors = pb_vendorIds body,
             d_imagePath = map_option (\<lambda>v. orNull (Some v)) (pb_imagePath body),
             d_status = pb_status body, d_isOrdered = None,
             d_tags = pb_tags body,
             d_note = map_option (\<lambda>v. orNull (Some v)) (pb_note body)\<rparr> p"
    and rest: "product_findUnique s' i = Some row"
      "\<forall>j. j \<noteq> i \<longrightarrow> product_findUnique s' j = product_findUnique s j"
    by blast+
  show ?thesis
    unfolding row[symmetric]
    apply (intro conjI rest)
    unfolding row
    by (simp_all only: applyUpdate_id applyUpdate_fields ProductUpdateInput.simps case_map_option option.case)
qed

lemma put_products_succeeds:
  assumes "product_findUnique s i = Some p" and "pb_barcode body = None"
    and "createProductSchema_partial body = Some body"
  shows "\<exists>row s'. put_products s i body = (Inr row, s')"
  unfolding put_products_def assms(3)
  using assms(1,2) by (simp add: barcodeTaken_def product_update_def Let_def)

lemma barcodeTaken_other:
  assumes "wf s" and "product_findUnique s i = Some p" and "barcodeTaken s p (Some b)"
  shows "list_ex (\<lambda>q. p_id q \<noteq> i \<and> barcode q = b) (products s)"
proof -
  have f: "find (\<lambda>p. p_id p = i) (products s) = Some p"
    using assms(2) by (simp add: product_findUnique_def)
  have pin: "p \<in> set (products s)" using f by (auto simp: find_Some_iff)
  have pid: "p_id p = i" using find_product_id[OF f] .
  from assms(3) have diff: "b \<noteq> barcode p" and "product_findUnique_barcode s b \<noteq> None"
    by (simp_all add: barcodeTaken_def)
  then obtain q where q: "q \<in> set (products s)" "barcode q = b"
    by (auto simp: barcode_lookup_None list_ex_iff)
  have inj: "inj_on p_id (set (products s))"
    using assms(1) by (simp add: wf_def distinct_map)
  have "p_id q \<noteq> i"
  proof
    assume "p_id q = i"
    with pid have "p_id q = p_id p" by simp
    with inj q(1) pin have "q = p" by (auto dest: inj_onD)
    with q(2) diff show False by simp
  qed
  with q show ?thesis by (auto simp: list_ex_iff)
qed

lemma updateProduct_succeeds_free_barcode:
  assumes "product_findUnique s i = Some p" and "wf s"
    and "\<not> vendorsRejected (u_vendors data)"
    and "u_barcode data = Some b"
    and "\<not> list_ex (\<lambda>q. p_id q \<noteq> i \<and> barcode q = b) (products s)"
  shows "\<exists>row s'. updateProduct s i data = (Inr row, s')"
proof -
  have "\<not> barcodeTaken s p (u_barcode data)"
    using barcodeTaken_other[OF assms(2,1), of b] assms(4,5) by auto
  then show ?thesis
    unfolding updateProduct_def assms(1)
    using assms(1,3,4,5) by (simp add: product_update_def Let_def)
qed

lemma put_products_succeeds_free_barcode:
  assumes "product_findUnique s i = Some p" and "wf s"
    and "createProductSchema_partial body = Some body"
    and "pb_barcode body = Some b"
    and "\<not> list_ex (\<lambda>q. p_id q \<noteq> i \<and> barcode q = b) (products s)"
  shows "\<exists>row s'. put_products s i body = (Inr row, s')"
proof -
  have "\<not> barcodeTaken s p (pb_barcode body)"
    using barcodeTaken_other[OF assms(2,1), of b] assms(4,5) by auto
  then show ?thesis
    unfolding put_products_def assms(3)
    using assms(1,4,5) by (simp add: product_update_def Let_def)
qed

text \<open>
  Claim C6.  \<^verbatim>\<open>updateProduct\<close> is sparse.  For a stored product and any payload,
  a successful call returns the updated row, which is the stored row of that id
  afterwards, and in which every field the payload names has the payload's value and
  every field it omits has its value of before; the other products are untouched.  A
  failed call returns the store as it was, and a payload with no barcode and no rejected
  vendor list succeeds.  The handler of \<^verbatim>\<open>PUT /products/:id\<close> is sparse in
  the same way over the properties of its schema (it stores null for an empty image path
  or note, and never writes \<^verbatim>\<open>isOrdered\<close>), and it succeeds for a body its
  schema accepts that has no barcode.  On a store with the primary key, both also
  succeed for a payload whose barcode no other product has.
\<close>

theorem updateProduct_sparse:
  assumes "product_findUnique s i = Some p"
  shows "(\<forall>row s'. updateProduct s i data = (Inr row, s') \<longrightarrow>
            p_id row = p_id p
          \<and> name row = (case u_name data of None \<Rightarrow> name p | Some v \<Rightarrow> v)
          \<and> barcode row = (case u_barcode data of None \<Rightarrow> barcode p | Some v \<Rightarrow> v)
          \<and> costPrice row = (case u_costPrice data of None \<Rightarrow> costPrice p | Some v \<Rightarrow> v)
          \<and> sellPrice row = (case u_sellPrice data of None \<Rightarrow> sellPrice p | Some v \<Rightarrow> v)
          \<and> status row = (case u_status data of None \<Rightarrow> status p | Some v \<Rightarrow> v)
          \<and> isOrdered row = (case u_isOrdered data of None \<Rightarrow> isOrdered p | Some v \<Rightarrow> v)
          \<and> tags row = (case u_tags data of None \<Rightarrow> tags p | Some v \<Rightarrow> v)
          \<and> vendors row = (case u_vendors data of None \<Rightarrow> vendors p | Some v \<Rightarrow> v)
          \<and> imagePath row = (case u_imagePath data of None \<Rightarrow> imagePath p | Some v \<Rightarrow> Some v)
          \<and> p_note row = (case u_note data of None \<Rightarrow> p_note p | Some v \<Rightarrow> Some v)
          \<and> product_findUnique s' i = Some row
          \<and> (\<forall>j. j \<noteq> i \<longrightarrow> product_findUnique s' j = product_findUnique s j))
       \<and> (\<forall>e s'. updateProduct s i data = (Inl e, s') \<longrightarrow> s' = s)
       \<and> (u_barcode data = None \<and> \<not> vendorsRejected (u_vendors data) \<longrightarrow>
            (\<exists>row s'. updateProduct s i data = (Inr row, s')))
       \<and> (\<forall>row s'. put_products s i body = (Inr row, s') \<longrightarrow>
            p_id row = p_id p
          \<and> name row = (case pb_name body of None \<Rightarrow> name p | Some v \<Rightarrow> v)
          \<and> barcode row = (case pb_barcode body of None \<Rightarrow> barcode p | Some v \<Rightarrow> v)
          \<and> costPrice row = (case pb_costPrice body of None \<Rightarrow> costPrice p | Some v \<Rightarrow> v)
          \<and> sellPrice row = (case pb_sellPrice body of None \<Rightarrow> sellPrice p | Some v \<Rightarrow> v)
          \<and> status row = (case pb_status body of None \<Rightarrow> status p | Some v \<Rightarrow> v)
          \<and> isOrdered row = isOrdered p
          \<and> tags row = (case pb_tags body of None \<Rightarrow> tags p | Some v \<Rightarrow> v)
          \<and> vendors row = (case pb_vendorIds body of None \<Rightarrow> vendors p | Some v \<Rightarrow> v)
          \<and> imagePath row = (case pb_imagePath body of None \<Rightarrow> imagePath p | Some v \<Rightarrow> orNull (Some v))
          \<and> p_note row = (case pb_note body of None \<Rightarrow> p_note p | Some v \<Rightarrow> orNull (Some v))
          \<and> product_findUnique s' i = Some row
          \<and> (\<forall>j. j \<noteq> i \<longrightarrow> product_findUnique s' j = product_findUnique s j))
       \<and> (\<forall>e s'. put_products s i body = (Inl e, s') \<longrightarrow> s' = s)
       \<and> (pb_barcode body = None \<and> createProductSchema_partial body = Some body \<longrightarrow>
            (\<exists>row s'. put_products s i body = (Inr row, s')))
       \<and> (\<forall>b. wf s \<and> \<not> vendorsRejected (u_vendors data) \<and> u_barcode data = Some b
              \<and> \<not> list_ex (\<lambda>q. p_id q \<noteq> i \<and> barcode q = b) (products s) \<longrightarrow>
            (\<exists>row s'. updateProduct s i data = (Inr row, s')))
       \<and> (\<forall>b. wf s \<and> createProductSchema_partial body = Some body \<and> pb_barcode body = Some b
              \<and> \<not> list_ex (\<lambda>q. p_id q \<noteq> i \<and> barcode q = b) (products s) \<longrightarrow>
            (\<exists>row s'. put_products s i body = (Inr row, s')))"
proof (intro conjI)
  show "pb_barcode body = None \<and> createProductSchema_partial body = Some body \<longrightarrow>
            (\<exists>row s'. put_products s i body = (Inr row, s'))"
    using put_products_succeeds[OF assms, of body] by blast
  show "\<forall>b. wf s \<and> \<not> vendorsRejected (u_vendors data) \<and> u_barcode data = Some b
              \<and> \<not> list_ex (\<lambda>q. p_id q \<noteq> i \<and> barcode q = b) (products s) \<longrightarrow>
            (\<exists>row s'. updateProduct s i data = (Inr row, s'))"
    using updateProduct_succeeds_free_barcode[OF assms, of data] by blast
  show "\<forall>b. wf s \<and> createProductSchema_partial body = Some body \<and> pb_barcode body = Some b
              \<and> \<not> list_ex (\<lambda>q. p_id q \<noteq> i \<and> barcode q = b) (products s) \<longrightarrow>
            (\<exists>row s'. put_products s i body = (Inr row, s'))"
    using put_products_succeeds_free_barcode[OF assms, of body] by blast
  show "\<forall>e s'. updateProduct s i data = (Inl e, s') \<longrightarrow> s' = s"
    by (intro allI impI) (erule updateProduct_failure)
  show "\<forall>e s'. put_products s i body = (Inl e, s') \<longrightarrow> s' = s"
    by (intro allI impI) (erule put_products_failure)
  show "u_barcode data = None \<and> \<not> vendorsRejected (u_vendors data) \<longrightarrow>
            (\<exists>row s'. updateProduct s i data = (Inr row, s'))"
    using updateProduct_succeeds[OF assms, of data] by blast
qed (intro allI impI, rule updateProduct_fields[OF assms], assumption,
     intro allI impI, rule put_products_fields[OF assms], assumption)

theorem updateProduct_sparse_witness:
  "(\<exists>row s'. updateProduct shop ''p1'' priceOnly = (Inr row, s')
      \<and> sellPrice row = 30 \<and> p_id row = ''p1'' \<and> name row = ''Coke''
      \<and> barcode row = ''COKE-001'' \<and> costPrice row = 20 \<and> status row = ACTIVE
      \<and> isOrdered row = False \<and> tags row = [] \<and> vendors row = []
      \<and> imagePath row = None \<and> p_note row = None
      \<and> product_findUnique s' ''p1'' = Some row)
   \<and> (\<exists>row s'. put_products shop ''p1'' priceOnlyBody = (Inr row, s')
      \<and> sellPrice row = 30 \<and> p_id row = ''p1'' \<and> name row = ''Coke''
      \<and> barcode row = ''COKE-001'' \<and> costPrice row = 20 \<and> status row = ACTIVE
      \<and> isOrdered row = False \<and> tags row = [] \<and> vendors row = []
      \<and> imagePath row = None \<and> p_note row = None
      \<and> product_findUnique s' ''p1'' = Some row)
   \<and> (\<exists>row s'. updateProduct shop ''p1'' (priceOnly\<lparr>u_barcode := Some ''COKE-002''\<rparr>)
        = (Inr row, s')
      \<and> barcode row = ''COKE-002'' \<and> sellPrice row = 30 \<and> name row = ''Coke''
      \<and> product_findUnique s' ''p1'' = Some row)
   \<and> (\<exists>row s'. put_products shop ''p1'' (priceOnlyBody\<lparr>pb_barcode := Some ''COKE-002''\<rparr>)
        = (Inr row, s')
      \<and> barcode row = ''COKE-002'' \<and> sellPrice row = 30 \<and> name row = ''Coke''
      \<and> product_findUnique s' ''p1'' = Some row)"
proof -
  have stored: "product_findUnique shop ''p1'' = Some coke"
    by (simp add: product_findUnique_def shop_def coke_def)
  note sparse = updateProduct_sparse[OF stored, of priceOnly priceOnlyBody]
  note fields = sparse[THEN conjunct1, THEN spec, THEN spec, THEN mp]
  note succeeds = sparse[THEN conjunct2, THEN conjunct2, THEN conjunct1, THEN mp]
  note fields_put = sparse[THEN conjunct2, THEN conjunct2, THEN conjunct2, THEN conjunct1,
      THEN spec, THEN spec, THEN mp]
  note succeeds_put = sparse[THEN conjunct2, THEN conjunct2, THEN conjunct2, THEN conjunct2,
      THEN conjunct2, THEN conjunct1, THEN mp]
  note fresh = updateProduct_sparse[OF stored,
      of "priceOnly\<lparr>u_barcode := Some ''COKE-002''\<rparr>"
         "priceOnlyBody\<lparr>pb_barcode := Some ''COKE-002''\<rparr>"]
  note fields_fresh = fresh[THEN conjunct1, THEN spec, THEN spec, THEN mp]
  note fields_put_fresh = fresh[THEN conjunct2, THEN conjunct2, THEN conjunct2, THEN conjunct1,
      THEN spec, THEN spec, THEN mp]
  note succeeds_fresh = fresh[THEN conjunct2, THEN conjunct2, THEN conjunct2, THEN conjunct2,
      THEN conjunct2, THEN conjunct2, THEN conjunct1, THEN spec, THEN mp]
  note succeeds_put_fresh = fresh[THEN conjunct2, THEN conjunct2, THEN conjunct2, THEN conjunct2,
      THEN conjunct2, THEN conjunct2, THEN conjunct2, THEN spec, THEN mp]
  have "u_barcode priceOnly = None \<and> \<not> vendorsRejected (u_vendors priceOnly)"
    by (simp add: priceOnly_def vendorsRejected_def)
  from succeeds[OF this] obtain row s'
    where ok: "updateProduct shop ''p1'' priceOnly = (Inr row, s')"
    by blast
  have "sellPrice row = 30 \<and> p_id row = ''p1'' \<and> name row = ''Coke''
      \<and> barcode row = ''COKE-001'' \<and> costPrice row = 20 \<and> status row = ACTIVE
      \<and> isOrdered row = False \<and> tags row = [] \<and> vendors row = []
      \<and> imagePath row = None \<and> p_note row = None
      \<and> product_findUnique s' ''p1'' = Some row"
    using fields[OF ok] by (simp add: priceOnly_def coke_def)
  with ok have service: "\<exists>row s'. updateProduct shop ''p1'' priceOnly = (Inr row, s')
      \<and> sellPrice row = 30 \<and> p_id row = ''p1'' \<and> name row = ''Coke''
      \<and> barcode row = ''COKE-001'' \<and> costPrice row = 20 \<and> status row = ACTIVE
      \<and> isOrdered row = False \<and> tags row = [] \<and> vendors row = []
      \<and> imagePath row = None \<and> p_note row = None
      \<and> product_findUnique s' ''p1'' = Some row"
    by blast
  have "pb_barcode priceOnlyBody = None
      \<and> createProductSchema_partial priceOnlyBody = Some priceOnlyBody"
    by (simp add: priceOnlyBody_def createProductSchema_partial_def)
  from succeeds_put[OF this] obtain row2 s2
    where ok2: "put_products shop ''p1'' priceOnlyBody = (Inr row2, s2)"
    by blast
  have "sellPrice row2 = 30 \<and> p_id row2 = ''p1'' \<and> name row2 = ''Coke''
      \<and> barcode row2 = ''COKE-001'' \<and> costPrice row2 = 20 \<and> status row2 = ACTIVE
      \<and> isOrdered row2 = False \<and> tags row2 = [] \<and> vendors row2 = []
      \<and> imagePath row2 = None \<and> p_note row2 = None
      \<and> product_findUnique s2 ''p1'' = Some row2"
    using fields_put[OF ok2] by (simp add: priceOnlyBody_def coke_def)
  with ok2 have handler: "\<exists>row s'. put_products shop ''p1'' priceOnlyBody = (Inr row, s')
      \<and> sellPrice row = 30 \<and> p_id row = ''p1'' \<and> name row = ''Coke''
      \<and> barcode row = ''COKE-001'' \<and> costPrice row = 20 \<and> status row = ACTIVE
      \<and> isOrdered row = False \<and> tags row = [] \<and> vendors row = []
      \<and> imagePath row = None \<and> p_note row = None
      \<and> product_findUnique s' ''p1'' = Some row"
    by blast
  have "wf shop \<and> \<not> vendorsRejected (u_vendors (priceOnly\<lparr>u_barcode := Some ''COKE-002''\<rparr>))
      \<and> u_barcode (priceOnly\<lparr>u_barcode := Some ''COKE-002''\<rparr>) = Some ''COKE-002''
      \<and> \<not> list_ex (\<lambda>q. p_id q \<noteq> ''p1'' \<and> barcode q = ''COKE-002'') (products shop)"
    by (simp add: wf_def priceOnly_def vendorsRejected_def shop_def coke_def)
  from succeeds_fresh[OF this] obtain row3 s3
    where ok3: "updateProduct shop ''p1'' (priceOnly\<lparr>u_barcode := Some ''COKE-002''\<rparr>)
        = (Inr row3, s3)"
    by blast
  have "barcode row3 = ''COKE-002'' \<and> sellPrice row3 = 30 \<and> name row3 = ''Coke''
      \<and> product_findUnique s3 ''p1'' = Some row3"
    using fields_fresh[OF ok3] by (simp add: priceOnly_def coke_def)
  with ok3 have service_fresh:
    "\<exists>row s'. updateProduct shop ''p1'' (priceOnly\<lparr>u_barcode := Some ''COKE-002''\<rparr>)
        = (Inr row, s')
      \<and> barcode row = ''COKE-002'' \<and> sellPrice row = 30 \<and> name row = ''Coke''
      \<and> product_findUnique s' ''p1'' = Some row"
    by blast
  have "wf shop
      \<and> createProductSchema_partial (priceOnlyBody\<lparr>pb_barcode := Some ''COKE-002''\<rparr>)
          = Some (priceOnlyBody\<lparr>pb_barcode := Some ''COKE-002''\<rparr>)
      \<and> pb_barcode (priceOnlyBody\<lparr>pb_barcode := Some ''COKE-002''\<rparr>) = Some ''COKE-002''
      \<and> \<not> list_ex (\<lambda>q. p_id q \<noteq> ''p1'' \<and> barcode q = ''COKE-002'') (products shop)"
    by (simp add: wf_def priceOnlyBody_def createProductSchema_partial_def shop_def coke_def)
  from succeeds_put_fresh[OF this] obtain row4 s4
    where ok4: "put_products shop ''p1'' (priceOnlyBody\<lparr>pb_barcode := Some ''COKE-002''\<rparr>)
        = (Inr row4, s4)"
    by blast
  have "barcode row4 = ''COKE-002'' \<and> sellPrice row4 = 30 \<and> name row4 = ''Coke''
      \<and> product_findUnique s4 ''p1'' = Some row4"
    using fields_put_fresh[OF ok4] by (simp add: priceOnlyBody_def coke_def)
  with ok4 have handler_fresh:
    "\<exists>row s'. put_products shop ''p1'' (priceOnlyBody\<lparr>pb_barcode := Some ''COKE-002''\<rparr>)
        = (Inr row, s')
      \<and> barcode row = ''COKE-002'' \<and> sellPrice row = 30 \<and> name row = ''Coke''
      \<and> product_findUnique s' ''p1'' = Some row"
    by blast
  from service handler service_fresh handler_fresh show ?thesis
    by (intro conjI)
qed

section \<open>Validation of quantities\<close>

lemma three_halves_not_int: "(3 / 2 :: real) \<notin> \<int>"
proof
  assume "(3 / 2 :: real) \<in> \<int>"
  then obtain k :: int where "(3 / 2 :: real) = of_int k"
    by (auto elim: Ints_cases)
  then have "(3 :: real) = of_int (2 * k)" by simp
  then have "(3 :: int) = 2 * k" by linarith
  then show False by presburger
qed

text \<open>
  Claim C9, as stated: every item \<^verbatim>\<open>createOrder\<close> or \<^verbatim>\<open>updateOrder\<close>
  accepts has a strictly positive integer quantity, and a request one of whose items
  has a zero, negative or non-integral quantity is rejected by validation before any
  persistence.  It fails in two ways.  \<^verbatim>\<open>z.number().positive()\<close> accepts the
  non-integral \<open>3 / 2\<close>: both schemas parse such a body, so validation does not reject
  it.  And the services validate nothing: on the concrete store
  \<^verbatim>\<open>OrderService.createOrder\<close> stores an item of quantity \<open>- 5\<close> and
  \<^verbatim>\<open>OrderService.updateOrder\<close> one of quantity \<open>0\<close>.
\<close>

theorem fractional_quantity_accepted:
  "quantity (item ''p1'' (3 / 2)) \<notin> \<int>
   \<and> createOrderSchema \<lparr>ob_note = None, ob_items = Some [item ''p1'' (3 / 2)]\<rparr>
       = Some \<lparr>co_items = [item ''p1'' (3 / 2)], co_note = None\<rparr>
   \<and> createOrderSchema_partial \<lparr>ob_note = None, ob_items = Some [item ''p1'' (3 / 2)]\<rparr>
       = Some \<lparr>uo_items = Some [item ''p1'' (3 / 2)], uo_note = None\<rparr>
   \<and> createOrder shop \<lparr>co_items = [item ''p1'' (- 5)], co_note = None\<rparr>
       = (Inr (\<lparr>o_id = ''ccc'', o_note = None\<rparr>,
               [\<lparr>productId = ''p1'', quantity = - 5, i_id = ''ccc'', orderId = ''ccc''\<rparr>]),
          \<lparr>products = [coke],
           orders = [\<lparr>o_id = ''o1'', o_note = Some ''weekend''\<rparr>, \<lparr>o_id = ''ccc'', o_note = None\<rparr>],
           orderItems = [\<lparr>productId = ''p1'', quantity = 50, i_id = ''i1'', orderId = ''o1''\<rparr>,
                         \<lparr>productId = ''p1'', quantity = - 5, i_id = ''ccc'', orderId = ''ccc''\<rparr>]\<rparr>)
   \<and> updateOrder shop ''o1'' \<lparr>uo_items = Some [item ''p1'' 0], uo_note = Some ''weekend''\<rparr>
       = (Inr (\<lparr>o_id = ''o1'', o_note = Some ''weekend''\<rparr>,
               [\<lparr>productId = ''p1'', quantity = 0, i_id = ''c'', orderId = ''o1''\<rparr>]),
          \<lparr>products = [coke], orders = [\<lparr>o_id = ''o1'', o_note = Some ''weekend''\<rparr>],
           orderItems = [\<lparr>productId = ''p1'', quantity = 0, i_id = ''c'', orderId = ''o1''\<rparr>]\<rparr>)"
  using three_halves_not_int
  by (simp add: createOrder_def updateOrder_def createOrderSchema_def
      createOrderSchema_partial_def itemsSchema_def orderItemSchema_def order_create_def
      order_update_def order_findUnique_def orderItem_deleteMany_def transaction_def
      product_findMany_in_def productsExist_def itemsOf_def Let_def shop_def coke_def
      item_def freshId_def)

text \<open>
  Claim C9, amended.  Validation is the route handlers': a request one of whose items has
  a zero or negative quantity is rejected by the schema of \<^verbatim>\<open>POST /orders\<close> and
  of \<^verbatim>\<open>PUT /orders/:id\<close> with a validation error (status 400) and the store is
  returned as it was; every item of a body either schema accepts has a strictly positive
  quantity.  The schemas do not ask for an integer, and the services check no quantity.
\<close>

theorem nonpositive_quantity_rejected:
  "(ob_items body = Some its \<and> r \<in> set its \<and> quantity r \<le> 0 \<longrightarrow>
        createOrderSchema body = None
      \<and> createOrderSchema_partial body = None
      \<and> post_orders s body = (Inl ZodError, s)
      \<and> put_orders s i body = (Inl ZodError, s))
   \<and> kind ZodError = ValidationError
   \<and> statusCode ZodError = 400
   \<and> (createOrderSchema body = Some data \<longrightarrow> list_all (\<lambda>r. 0 < quantity r) (co_items data))
   \<and> (createOrderSchema_partial body = Some upd \<and> uo_items upd = Some its' \<longrightarrow>
        list_all (\<lambda>r. 0 < quantity r) its')"
proof -
  have rejected: "createOrderSchema body = None \<and> createOrderSchema_partial body = None
      \<and> post_orders s body = (Inl ZodError, s) \<and> put_orders s i body = (Inl ZodError, s)"
    if "ob_items body = Some its" and "r \<in> set its" and "quantity r \<le> 0"
  proof -
    have "\<not> orderItemSchema r"
      using that(3) by (simp add: orderItemSchema_def)
    then have "\<not> itemsSchema its"
      using that(2) by (auto simp: itemsSchema_def list_all_iff)
    then have a: "createOrderSchema body = None" and b: "createOrderSchema_partial body = None"
      using that(1) by (simp_all add: createOrderSchema_def createOrderSchema_partial_def)
    show ?thesis
      by (simp add: a b post_orders_def put_orders_def)
  qed
  have accepted:
    "(createOrderSchema body = Some data \<longrightarrow> list_all (\<lambda>r. 0 < quantity r) (co_items data))
     \<and> (createOrderSchema_partial body = Some upd \<and> uo_items upd = Some its' \<longrightarrow>
          list_all (\<lambda>r. 0 < quantity r) its')"
    by (auto simp: createOrderSchema_def createOrderSchema_partial_def itemsSchema_def
        orderItemSchema_def list_all_iff split: option.splits if_splits)
  from rejected accepted show ?thesis by simp
qed

theorem nonpositive_quantity_rejected_witness:
  "post_orders shop \<lparr>ob_note = None, ob_items = Some [item ''p1'' 2, item ''p1'' 0]\<rparr>
     = (Inl ZodError, shop)
   \<and> put_orders shop ''o1'' \<lparr>ob_note = None, ob_items = Some [item ''p1'' 2, item ''p1'' 0]\<rparr>
     = (Inl ZodError, shop)
   \<and> createOrderSchema \<lparr>ob_note = None, ob_items = Some [item ''p1'' 2]\<rparr>
     = Some \<lparr>co_items = [item ''p1'' 2], co_note = None\<rparr>
   \<and> list_all (\<lambda>r. 0 < quantity r) [item ''p1'' 2]"
proof -
  have bad: "ob_items \<lparr>ob_note = None, ob_items = Some [item ''p1'' 2, item ''p1'' 0]\<rparr>
      = Some [item ''p1'' 2, item ''p1'' 0]
    \<and> item ''p1'' 0 \<in> set [item ''p1'' 2, item ''p1'' 0] \<and> quantity (item ''p1'' 0) \<le> 0"
    by (simp add: item_def)
  have good: "createOrderSchema \<lparr>ob_note = None, ob_items = Some [item ''p1'' 2]\<rparr>
     = Some \<lparr>co_items = [item ''p1'' 2], co_note = None\<rparr>"
    by (simp add: createOrderSchema_def itemsSchema_def orderItemSchema_def item_def)
  from nonpositive_quantity_rejected[
      where body = "\<lparr>ob_note = None, ob_items = Some [item ''p1'' 2, item ''p1'' 0]\<rparr>"
        and its = "[item ''p1'' 2, item ''p1'' 0]" and r = "item ''p1'' 0"
        and s = shop and i = "''o1''"] bad
  have first: "post_orders shop \<lparr>ob_note = None, ob_items = Some [item ''p1'' 2, item ''p1'' 0]\<rparr>
       = (Inl ZodError, shop)
     \<and> put_orders shop ''o1'' \<lparr>ob_note = None, ob_items = Some [item ''p1'' 2, item ''p1'' 0]\<rparr>
       = (Inl ZodError, shop)"
    by blast
  from nonpositive_quantity_rejected[
      where body = "\<lparr>ob_note = None, ob_items = Some [item ''p1'' 2]\<rparr>"
        and data = "\<lparr>co_items = [item ''p1'' 2], co_note = None\<rparr>"] good
  have "list_all (\<lambda>r. 0 < quantity r) (co_items \<lparr>co_items = [item ''p1'' 2], co_note = None\<rparr>)"
    by blast
  with first good show ?thesis by simp
qed

end
